theory Spec2Isabelle
  imports Complex_Main "HOL-Library.Sublist"
begin

section \<open>JavaScript values\<close>

text \<open>
  A JavaScript \<open>number\<close> is an IEEE-754 double. The embedding keeps the three special
  values apart and represents a finite double by the real number it denotes. Arithmetic on
  finite values is exact (rounding is not modelled); arithmetic on the special values
  follows IEEE-754. Positive and negative zero are both \<open>Fin 0\<close>; the code modelled here
  never divides by a variable, so the sign of zero cannot be observed in it.
\<close>

datatype jsnum = NaN | PInf | NInf | Fin real

fun js_add :: "jsnum \<Rightarrow> jsnum \<Rightarrow> jsnum" where
  "js_add NaN _ = NaN"
| "js_add _ NaN = NaN"
| "js_add PInf NInf = NaN"
| "js_add NInf PInf = NaN"
| "js_add PInf _ = PInf"
| "js_add _ PInf = PInf"
| "js_add NInf _ = NInf"
| "js_add _ NInf = NInf"
| "js_add (Fin x) (Fin y) = Fin (x + y)"

fun js_neg :: "jsnum \<Rightarrow> jsnum" where
  "js_neg NaN = NaN"
| "js_neg PInf = NInf"
| "js_neg NInf = PInf"
| "js_neg (Fin x) = Fin (- x)"

definition js_sub :: "jsnum \<Rightarrow> jsnum \<Rightarrow> jsnum" where
  "js_sub a b = js_add a (js_neg b)"

text \<open>\<open>a / c\<close> and \<open>a * c\<close> for a positive finite constant \<open>c\<close>, the only divisions and
  multiplications on the modelled paths (\<open>/ 86400\<close>, \<open>/ 1000\<close>, \<open>* 1000\<close>).\<close>

fun js_div_pos :: "jsnum \<Rightarrow> real \<Rightarrow> jsnum" where
  "js_div_pos (Fin x) c = Fin (x / c)"
| "js_div_pos a c = a"

fun js_mul_pos :: "jsnum \<Rightarrow> real \<Rightarrow> jsnum" where
  "js_mul_pos (Fin x) c = Fin (x * c)"
| "js_mul_pos a c = a"

fun js_floor :: "jsnum \<Rightarrow> jsnum" where
  "js_floor (Fin x) = Fin (of_int \<lfloor>x\<rfloor>)"
| "js_floor a = a"

text \<open>\<open>Math.round\<close> rounds halves towards \<open>+\<infinity>\<close>.\<close>

fun js_round :: "jsnum \<Rightarrow> jsnum" where
  "js_round (Fin x) = Fin (of_int \<lfloor>x + 1 / 2\<rfloor>)"
| "js_round a = a"

fun js_abs :: "jsnum \<Rightarrow> jsnum" where
  "js_abs NaN = NaN"
| "js_abs PInf = PInf"
| "js_abs NInf = PInf"
| "js_abs (Fin x) = Fin \<bar>x\<bar>"

text \<open>The relational operators: every comparison with \<open>NaN\<close> is false.\<close>

fun js_lt :: "jsnum \<Rightarrow> jsnum \<Rightarrow> bool" where
  "js_lt NaN _ = False"
| "js_lt _ NaN = False"
| "js_lt PInf _ = False"
| "js_lt _ NInf = False"
| "js_lt NInf _ = True"
| "js_lt _ PInf = True"
| "js_lt (Fin x) (Fin y) = (x < y)"

definition js_gt :: "jsnum \<Rightarrow> jsnum \<Rightarrow> bool" where
  "js_gt a b = js_lt b a"

definition js_ge :: "jsnum \<Rightarrow> jsnum \<Rightarrow> bool" where
  "js_ge a b = (a \<noteq> NaN \<and> b \<noteq> NaN \<and> \<not> js_lt a b)"

definition js_le :: "jsnum \<Rightarrow> jsnum \<Rightarrow> bool" where
  "js_le a b = js_ge b a"

text \<open>Strict equality \<open>===\<close> on numbers: \<open>NaN\<close> is not equal to itself.\<close>

definition js_seq :: "jsnum \<Rightarrow> jsnum \<Rightarrow> bool" where
  "js_seq a b = (a \<noteq> NaN \<and> a = b)"

text \<open>Truthiness of a number: \<open>0\<close> and \<open>NaN\<close> are falsy.\<close>

definition js_truthy :: "jsnum \<Rightarrow> bool" where
  "js_truthy a = (a \<noteq> NaN \<and> a \<noteq> Fin 0)"

definition is_finite :: "jsnum \<Rightarrow> bool" where
  "is_finite a = (case a of Fin _ \<Rightarrow> True | _ \<Rightarrow> False)"

text \<open>The nullish coalescing operator \<open>a ?? b\<close>, with \<open>None\<close> for \<open>null\<close> and
  \<open>undefined\<close>.\<close>

definition nullish :: "'a option \<Rightarrow> 'a \<Rightarrow> 'a" where
  "nullish a b = (case a of None \<Rightarrow> b | Some x \<Rightarrow> x)"

definition nullish_opt :: "'a option \<Rightarrow> 'a option \<Rightarrow> 'a option" where
  "nullish_opt a b = (case a of None \<Rightarrow> b | Some x \<Rightarrow> Some x)"

text \<open>\<open>String.prototype.includes\<close> and \<open>startsWith\<close>.\<close>

fun str_includes :: "string \<Rightarrow> string \<Rightarrow> bool" where
  "str_includes [] sub = (sub = [])"
| "str_includes (c # s) sub = (prefix sub (c # s) \<or> str_includes s sub)"

definition startsWith :: "string \<Rightarrow> string \<Rightarrow> bool" where
  "startsWith s p = prefix p s"

text \<open>\<open>String.prototype.split\<close> on a one-character separator and \<open>Array.prototype.join\<close>.\<close>

fun split_on :: "char \<Rightarrow> string \<Rightarrow> string list" where
  "split_on d [] = [[]]"
| "split_on d (c # cs) =
     (if c = d then [] # split_on d cs
      else (case split_on d cs of [] \<Rightarrow> [[c]] | p # ps \<Rightarrow> (c # p) # ps))"

fun join_with :: "string \<Rightarrow> string list \<Rightarrow> string" where
  "join_with sep [] = []"
| "join_with sep [x] = x"
| "join_with sep (x # y # ys) = x @ sep @ join_with sep (y # ys)"

text \<open>The em dash of the source's string literals (in UTF-8), the double quote and the
  line feed.\<close>

definition emdash :: string where
  "emdash = [CHR 0xE2, CHR 0x80, CHR 0x94]"

definition dquote :: string where
  "dquote = [CHR 0x22]"

definition newline :: string where
  "newline = [CHR 0x0A]"

subsection \<open>JSON\<close>

text \<open>
  A JSON value, as \<open>JSON.parse\<close> returns it and \<open>JSON.stringify\<close> prints it. An object is the
  list of its own properties in insertion order, with distinct keys. \<open>JSON.stringify\<close>
  prints a number the way a template literal does (the function \<open>f\<close>), \<open>null\<close> for a number
  that is not finite, and a string quoted with the escapes of ECMAScript's
  \<open>QuoteJSONString\<close>. A string is a list of bytes (UTF-8), so a character outside ASCII is
  copied byte by byte, as \<open>JSON.stringify\<close> copies it.
\<close>

datatype json =
  JNull | JBool bool | JNum jsnum | JStr string | JArr "json list" | JObj "(string \<times> json) list"

definition hex_char :: "nat \<Rightarrow> char" where
  "hex_char d = ''0123456789abcdef'' ! (d mod 16)"

definition escape_char :: "char \<Rightarrow> string" where
  "escape_char c =
     (if c = CHR 0x22 then [CHR 0x5C, CHR 0x22]
      else if c = CHR 0x5C then [CHR 0x5C, CHR 0x5C]
      else if c = CHR 0x08 then [CHR 0x5C, CHR ''b'']
      else if c = CHR 0x0C then [CHR 0x5C, CHR ''f'']
      else if c = CHR 0x0A then [CHR 0x5C, CHR ''n'']
      else if c = CHR 0x0D then [CHR 0x5C, CHR ''r'']
      else if c = CHR 0x09 then [CHR 0x5C, CHR ''t'']
      else if (of_char c :: nat) < 32 then
        [CHR 0x5C, CHR ''u'', CHR ''0'', CHR ''0'',
         hex_char ((of_char c :: nat) div 16), hex_char ((of_char c :: nat) mod 16)]
      else [c])"

definition json_quote :: "string \<Rightarrow> string" where
  "json_quote s = dquote @ concat (map escape_char s) @ dquote"

fun stringify :: "(jsnum \<Rightarrow> string) \<Rightarrow> json \<Rightarrow> string"
  and stringify_items :: "(jsnum \<Rightarrow> string) \<Rightarrow> json list \<Rightarrow> string"
  and stringify_props :: "(jsnum \<Rightarrow> string) \<Rightarrow> (string \<times> json) list \<Rightarrow> string"
where
  "stringify f JNull = ''null''"
| "stringify f (JBool b) = (if b then ''true'' else ''false'')"
| "stringify f (JNum n) = (if is_finite n then f n else ''null'')"
| "stringify f (JStr s) = json_quote s"
| "stringify f (JArr xs) = ''['' @ stringify_items f xs @ '']''"
| "stringify f (JObj kvs) = ''{'' @ stringify_props f kvs @ ''}''"
| "stringify_items f [] = []"
| "stringify_items f [x] = stringify f x"
| "stringify_items f (x # y # ys) = stringify f x @ '','' @ stringify_items f (y # ys)"
| "stringify_props f [] = []"
| "stringify_props f [(k, v)] = json_quote k @ '':'' @ stringify f v"
| "stringify_props f ((k, v) # kv # kvs) =
     json_quote k @ '':'' @ stringify f v @ '','' @ stringify_props f (kv # kvs)"

definition num_json :: "jsnum option \<Rightarrow> json" where
  "num_json a = (case a of None \<Rightarrow> JNull | Some n \<Rightarrow> JNum n)"

definition str_json :: "string option \<Rightarrow> json" where
  "str_json a = (case a of None \<Rightarrow> JNull | Some s \<Rightarrow> JStr s)"

section \<open>The host\<close>

text \<open>
  What the code takes from the JavaScript runtime and from the process it runs in.
  \<^item> \<open>toStr\<close>: how a number is printed in a template literal and by \<open>JSON.stringify\<close>.
  \<^item> \<open>getHours\<close>: the local-time hour of \<open>new Date(ms)\<close>, which depends on the time zone of
    the process.
  \<^item> \<open>JSON_parse\<close>: \<open>JSON.parse\<close>, with \<open>None\<close> when it throws.
  \<^item> \<open>stripFences\<close>: the two regular-expression replacements and the \<open>trim\<close> that
    \<open>JudgmentLayer.evaluate\<close> applies to the reply before it parses it.
  \<^item> \<open>runEmbeddedPiAgent\<close>: the model invocation for a prompt, a provider and a model,
    together with the temporary directory and the dynamic import that precede it; any of
    them may throw.
\<close>

datatype content_item = TextItem string | OtherItem

datatype payload = PString string | PObject "string option" "content_item list option" | POther

datatype invocation = Throws | Returns "payload list option"

record Host =
  toStr :: "jsnum \<Rightarrow> string"
  getHours :: "jsnum \<Rightarrow> jsnum"
  JSON_parse :: "string \<Rightarrow> json option"
  stripFences :: "string \<Rightarrow> string"
  runEmbeddedPiAgent :: "string \<Rightarrow> string \<Rightarrow> string \<Rightarrow> invocation"

section \<open>Data model (types.ts)\<close>

text \<open>An object of type \<open>Record<string, T>\<close> is a list of its own properties in insertion
  order; a property is read with \<open>map_of\<close>.\<close>

record DeviceEvent =
  subscriptionId :: string
  source :: string
  data :: "(string \<times> jsnum) list"
  metadata :: "(string \<times> string) list option"
  firedAt :: jsnum

record BatteryState =
  level :: jsnum
  state :: string
  isLowPowerMode :: bool
  updatedAt :: jsnum

record LocationState =
  latitude :: jsnum
  longitude :: jsnum
  horizontalAccuracy :: jsnum
  label :: "string option"
  loc_updatedAt :: jsnum

record HealthState =
  stepsToday :: "jsnum option"
  distanceMeters :: "jsnum option"
  heartRateAvg :: "jsnum option"
  restingHeartRate :: "jsnum option"
  hrv :: "jsnum option"
  activeEnergyKcal :: "jsnum option"
  sleepDurationSeconds :: "jsnum option"
  health_updatedAt :: jsnum

record Transition =
  from_zone :: "string option"
  to_zone :: "string option"
  at_time :: jsnum

record ActivityState =
  currentZone :: "string option"
  zoneEnteredAt :: "jsnum option"
  lastTransition :: "Transition option"
  isStationary :: bool
  stationarySince :: "jsnum option"

record ContextMeta =
  lastEventAt :: jsnum
  eventsToday :: jsnum
  lastAgentPushAt :: jsnum
  pushesToday :: jsnum

record Device =
  battery :: "BatteryState option"
  location :: "LocationState option"
  health :: "HealthState option"

record DeviceContext =
  device :: Device
  activity :: ActivityState
  meta :: ContextMeta

section \<open>Context store (context.ts)\<close>

definition empty_context :: DeviceContext where
  "empty_context =
     \<lparr> device = \<lparr> battery = None, location = None, health = None \<rparr>,
       activity = \<lparr> currentZone = None, zoneEnteredAt = None, lastTransition = None,
                    isStationary = True, stationarySince = None \<rparr>,
       meta = \<lparr> lastEventAt = Fin 0, eventsToday = Fin 0, lastAgentPushAt = Fin 0,
                pushesToday = Fin 0 \<rparr> \<rparr>"

text \<open>The daily counters: the first statements of \<open>updateFromEvent\<close>.\<close>

definition utc_day :: "jsnum \<Rightarrow> jsnum" where
  "utc_day t = js_floor (js_div_pos t 86400)"

definition rollover :: "ContextMeta \<Rightarrow> jsnum \<Rightarrow> bool" where
  "rollover m now =
     (\<not> js_seq (utc_day (lastEventAt m)) (utc_day now) \<and> js_gt (lastEventAt m) (Fin 0))"

definition update_meta :: "ContextMeta \<Rightarrow> jsnum \<Rightarrow> ContextMeta" where
  "update_meta m now =
     (let m1 = (if rollover m now then m\<lparr> eventsToday := Fin 0, pushesToday := Fin 0 \<rparr> else m)
      in m1\<lparr> lastEventAt := now, eventsToday := js_add (eventsToday m1) (Fin 1) \<rparr>)"

text \<open>The \<open>device.battery\<close> case.\<close>

definition update_battery :: "BatteryState option \<Rightarrow> (string \<times> jsnum) list \<Rightarrow> jsnum \<Rightarrow> BatteryState" where
  "update_battery prior dat now =
     \<lparr> level = nullish (map_of dat ''level'') (nullish (map_option level prior) (Fin 0)),
       state = nullish (map_option state prior) ''unknown'',
       isLowPowerMode = js_seq (nullish (map_of dat ''isLowPowerMode'') (Fin 0)) (Fin 1),
       updatedAt = nullish (map_of dat ''updatedAt'') now \<rparr>"

text \<open>The \<open>geofence.triggered\<close> case: the enter/exit state machine, then the location.\<close>

definition zoneName :: "DeviceEvent \<Rightarrow> string option" where
  "zoneName ev = (case metadata ev of None \<Rightarrow> None | Some md \<Rightarrow> map_of md ''zoneName'')"

definition is_enter :: "DeviceEvent \<Rightarrow> bool" where
  "is_enter ev = (case map_of (data ev) ''type'' of None \<Rightarrow> False | Some t \<Rightarrow> js_seq t (Fin 1))"

definition update_activity :: "ActivityState \<Rightarrow> DeviceEvent \<Rightarrow> ActivityState" where
  "update_activity a ev =
     (let now = firedAt ev; prevZone = currentZone a in
      if is_enter ev then
        a\<lparr> lastTransition := Some \<lparr> from_zone = prevZone, to_zone = zoneName ev, at_time = now \<rparr>,
           currentZone := zoneName ev,
           zoneEnteredAt := Some now,
           isStationary := True,
           stationarySince := Some now \<rparr>
      else
        a\<lparr> lastTransition := Some \<lparr> from_zone = prevZone, to_zone = None, at_time = now \<rparr>,
           currentZone := None,
           zoneEnteredAt := None,
           isStationary := False,
           stationarySince := None \<rparr>)"

definition update_location ::
  "LocationState option \<Rightarrow> string option \<Rightarrow> (string \<times> jsnum) list \<Rightarrow> jsnum \<Rightarrow> LocationState" where
  "update_location prior zone dat now =
     \<lparr> latitude = nullish (map_of dat ''latitude'') (nullish (map_option latitude prior) (Fin 0)),
       longitude = nullish (map_of dat ''longitude'') (nullish (map_option longitude prior) (Fin 0)),
       horizontalAccuracy = nullish (map_option horizontalAccuracy prior) (Fin 0),
       label = zone,
       loc_updatedAt = nullish (map_of dat ''timestamp'') now \<rparr>"

text \<open>The default case, for a source that starts with \<open>health\<close>.\<close>

definition prior_health :: "HealthState option \<Rightarrow> (HealthState \<Rightarrow> jsnum option) \<Rightarrow> jsnum option" where
  "prior_health prior f = (case prior of None \<Rightarrow> None | Some h \<Rightarrow> f h)"

definition update_health :: "HealthState option \<Rightarrow> (string \<times> jsnum) list \<Rightarrow> jsnum \<Rightarrow> HealthState" where
  "update_health prior dat now =
     \<lparr> stepsToday = nullish_opt (map_of dat ''stepsToday'') (prior_health prior stepsToday),
       distanceMeters = nullish_opt (map_of dat ''distanceMeters'') (prior_health prior distanceMeters),
       heartRateAvg = nullish_opt (map_of dat ''heartRateAvg'') (prior_health prior heartRateAvg),
       restingHeartRate =
         nullish_opt (map_of dat ''restingHeartRate'') (prior_health prior restingHeartRate),
       hrv = nullish_opt (map_of dat ''hrv'') (prior_health prior hrv),
       activeEnergyKcal =
         nullish_opt (map_of dat ''activeEnergyKcal'') (prior_health prior activeEnergyKcal),
       sleepDurationSeconds =
         nullish_opt (map_of dat ''sleepDurationSeconds'') (prior_health prior sleepDurationSeconds),
       health_updatedAt = nullish (map_of dat ''updatedAt'') now \<rparr>"

definition updateFromEvent :: "DeviceContext \<Rightarrow> DeviceEvent \<Rightarrow> DeviceContext" where
  "updateFromEvent c ev =
     (let now = firedAt ev;
          dat = data ev;
          c1 = c\<lparr> meta := update_meta (meta c) now \<rparr>
      in if source ev = ''device.battery'' then
           c1\<lparr> device := (device c1)\<lparr> battery := Some (update_battery (battery (device c1)) dat now) \<rparr> \<rparr>
         else if source ev = ''geofence.triggered'' then
           (let a = update_activity (activity c1) ev in
            c1\<lparr> activity := a,
                device := (device c1)\<lparr> location :=
                  Some (update_location (location (device c1)) (currentZone a) dat now) \<rparr> \<rparr>)
         else if startsWith (source ev) ''health'' then
           c1\<lparr> device := (device c1)\<lparr> health := Some (update_health (health (device c1)) dat now) \<rparr> \<rparr>
         else c1)"

text \<open>The seven metrics of the health record, each with the key under which an event carries
  it.\<close>

definition health_metrics :: "(string \<times> (HealthState \<Rightarrow> jsnum option)) list" where
  "health_metrics =
     [(''stepsToday'', stepsToday), (''distanceMeters'', distanceMeters),
      (''heartRateAvg'', heartRateAvg), (''restingHeartRate'', restingHeartRate),
      (''hrv'', hrv), (''activeEnergyKcal'', activeEnergyKcal),
      (''sleepDurationSeconds'', sleepDurationSeconds)]"

text \<open>A sequence of events applied in order, and the last geofence event of a sequence.\<close>

definition apply_events :: "DeviceContext \<Rightarrow> DeviceEvent list \<Rightarrow> DeviceContext" where
  "apply_events c evs = foldl updateFromEvent c evs"

definition last_geofence :: "DeviceEvent list \<Rightarrow> DeviceEvent option" where
  "last_geofence evs =
     (let gs = filter (\<lambda>e. source e = ''geofence.triggered'') evs
      in if gs = [] then None else Some (last gs))"

definition recordPush :: "DeviceContext \<Rightarrow> jsnum \<Rightarrow> DeviceContext" where
  "recordPush c now_ms =
     c\<lparr> meta := (meta c)\<lparr> lastAgentPushAt := js_div_pos now_ms 1000,
                          pushesToday := js_add (pushesToday (meta c)) (Fin 1) \<rparr> \<rparr>"

section \<open>Rules engine (filter.ts)\<close>

datatype Action = Push | Drop | Defer | Ambiguous

record FilterDecision =
  action :: Action
  reason :: string

record RulesEngine =
  lastFired :: "string \<Rightarrow> jsnum option"
  pushBudget :: jsnum

text \<open>
  \<open>DEDUP_COOLDOWN\<close> is an object literal, read with a key the caller chooses. Such a read
  also finds the members the literal inherits from \<open>Object.prototype\<close>; they are functions or
  objects, \<open>??\<close> keeps them, and \<open><\<close> converts them to \<open>NaN\<close>. The comparison is the only
  place where the value is used before the dedup branch is taken, so an inherited member
  reads as \<open>NaN\<close> here.
\<close>

definition object_prototype_keys :: "string list" where
  "object_prototype_keys =
     [''constructor'', ''__defineGetter__'', ''__defineSetter__'', ''hasOwnProperty'',
      ''__lookupGetter__'', ''__lookupSetter__'', ''isPrototypeOf'', ''propertyIsEnumerable'',
      ''toString'', ''valueOf'', ''__proto__'', ''toLocaleString'']"

definition DEDUP_COOLDOWN :: "string \<Rightarrow> jsnum option" where
  "DEDUP_COOLDOWN k =
     (if k = ''default.battery-low'' then Some (Fin 3600)
      else if k = ''default.battery-critical'' then Some (Fin 1800)
      else if k = ''default.daily-health'' then Some (Fin 82800)
      else if k = ''default.geofence'' then Some (Fin 300)
      else if k \<in> set object_prototype_keys then Some NaN
      else None)"

definition DEFAULT_COOLDOWN :: jsnum where
  "DEFAULT_COOLDOWN = Fin 1800"

definition cooldown_of :: "string \<Rightarrow> jsnum" where
  "cooldown_of sid = nullish (DEDUP_COOLDOWN sid) DEFAULT_COOLDOWN"

text \<open>The cooldown as the specification words it: the value of the table for the four
  subscriptions it lists, else 1800 s. It is what \<open>cooldown_of\<close> yields for every id that is
  not the name of a member inherited from \<open>Object.prototype\<close>.\<close>

definition table_cooldown :: "string \<Rightarrow> jsnum" where
  "table_cooldown sid =
     (if sid = ''default.battery-low'' then Fin 3600
      else if sid = ''default.battery-critical'' then Fin 1800
      else if sid = ''default.daily-health'' then Fin 82800
      else if sid = ''default.geofence'' then Fin 300
      else Fin 1800)"

definition is_debug :: "DeviceEvent \<Rightarrow> bool" where
  "is_debug ev =
     (case map_of (data ev) ''_debugFired'' of None \<Rightarrow> False | Some d \<Rightarrow> js_seq d (Fin 1))"

text \<open>The dedup check: \<open>lastFiredAt && event.firedAt - lastFiredAt < cooldown\<close>.\<close>

definition in_cooldown :: "RulesEngine \<Rightarrow> DeviceEvent \<Rightarrow> bool" where
  "in_cooldown r ev =
     (case lastFired r (subscriptionId ev) of
        None \<Rightarrow> False
      | Some t \<Rightarrow> js_truthy t \<and> js_lt (js_sub (firedAt ev) t) (cooldown_of (subscriptionId ev)))"

definition dedup_reason :: "Host \<Rightarrow> RulesEngine \<Rightarrow> DeviceEvent \<Rightarrow> string" where
  "dedup_reason h r ev =
     ''dedup: '' @ subscriptionId ev @ '' fired ''
       @ (case lastFired r (subscriptionId ev) of
            None \<Rightarrow> []
          | Some t \<Rightarrow> toStr h (js_round (js_sub (firedAt ev) t)))
       @ ''s ago (cooldown: '' @ toStr h (cooldown_of (subscriptionId ev)) @ ''s)''"

text \<open>The battery-low rule: both levels defined and less than 0.02 apart.\<close>

definition level_unchanged :: "DeviceEvent \<Rightarrow> DeviceContext \<Rightarrow> bool" where
  "level_unchanged ev c =
     (case (map_option level (battery (device c)), map_of (data ev) ''level'') of
        (Some lastLevel, Some currentLevel) \<Rightarrow>
          js_lt (js_abs (js_sub currentLevel lastLevel)) (Fin (2 / 100))
      | _ \<Rightarrow> False)"

definition RulesEngine_evaluate ::
  "Host \<Rightarrow> RulesEngine \<Rightarrow> DeviceEvent \<Rightarrow> DeviceContext \<Rightarrow> FilterDecision" where
  "RulesEngine_evaluate h r ev c =
     (if is_debug ev then
        \<lparr> action = Push, reason = ''debug event '' @ emdash @ '' always push'' \<rparr>
      else if in_cooldown r ev then
        \<lparr> action = Drop, reason = dedup_reason h r ev \<rparr>
      else if subscriptionId ev = ''default.battery-critical'' then
        \<lparr> action = Push, reason = ''critical battery '' @ emdash @ '' always push'' \<rparr>
      else if source ev = ''geofence.triggered'' then
        \<lparr> action = Push, reason = ''geofence event '' @ emdash @ '' always push'' \<rparr>
      else if subscriptionId ev = ''default.battery-low'' then
        (if level_unchanged ev c then
           \<lparr> action = Drop, reason = ''battery-low: level unchanged since last push'' \<rparr>
         else \<lparr> action = Push, reason = ''battery low '' @ emdash @ '' level changed'' \<rparr>)
      else if subscriptionId ev = ''default.daily-health'' then
        (let hour = getHours h (js_mul_pos (firedAt ev) 1000) in
         if js_ge hour (Fin 6) \<and> js_le hour (Fin 10) then
           \<lparr> action = Push,
             reason = ''daily health summary '' @ emdash @ '' within morning window'' \<rparr>
         else
           \<lparr> action = Defer,
             reason = ''daily health summary '' @ emdash @ '' outside morning window'' \<rparr>)
      else if js_ge (pushesToday (meta c)) (pushBudget r) then
        \<lparr> action = Drop,
          reason = ''push budget exhausted ('' @ toStr h (pushesToday (meta c)) @ ''/''
                   @ toStr h (pushBudget r) @ '' today)'' \<rparr>
      else
        \<lparr> action = Ambiguous,
          reason = ''no rule matched '' @ emdash @ '' forward to LLM judgment'' \<rparr>)"

definition recordFired :: "RulesEngine \<Rightarrow> string \<Rightarrow> jsnum \<Rightarrow> RulesEngine" where
  "recordFired r sid t = r\<lparr> lastFired := (lastFired r)(sid \<mapsto> t) \<rparr>"

fun restoreCooldowns :: "RulesEngine \<Rightarrow> (string \<times> jsnum) list \<Rightarrow> RulesEngine" where
  "restoreCooldowns r [] = r"
| "restoreCooldowns r ((sid, t) # es) =
     restoreCooldowns
       (case lastFired r sid of
          None \<Rightarrow> recordFired r sid t
        | Some existing \<Rightarrow>
            if \<not> js_truthy existing \<or> js_gt t existing then recordFired r sid t else r)
       es"

section \<open>Judgment layer (judgment.ts)\<close>

record PluginConfig =
  llmModel :: string
  pushBudgetPerDay :: jsnum
  patternWindowDays :: jsnum
  proactiveEnabled :: bool

record JudgmentResult =
  push :: bool
  judgment_reason :: string

text \<open>The JSON of the records, with the properties in the order in which the code creates
  them. In \<open>sanitizedContext\<close> the location keeps its label and its time only.\<close>

definition battery_json :: "BatteryState \<Rightarrow> json" where
  "battery_json b =
     JObj [(''level'', JNum (level b)), (''state'', JStr (state b)),
           (''isLowPowerMode'', JBool (isLowPowerMode b)), (''updatedAt'', JNum (updatedAt b))]"

definition sanitized_location_json :: "LocationState \<Rightarrow> json" where
  "sanitized_location_json l =
     JObj [(''label'', JStr (nullish (label l) ''Unknown'')), (''updatedAt'', JNum (loc_updatedAt l))]"

definition health_json :: "HealthState \<Rightarrow> json" where
  "health_json x =
     JObj [(''stepsToday'', num_json (stepsToday x)),
           (''distanceMeters'', num_json (distanceMeters x)),
           (''heartRateAvg'', num_json (heartRateAvg x)),
           (''restingHeartRate'', num_json (restingHeartRate x)),
           (''hrv'', num_json (hrv x)),
           (''activeEnergyKcal'', num_json (activeEnergyKcal x)),
           (''sleepDurationSeconds'', num_json (sleepDurationSeconds x)),
           (''updatedAt'', JNum (health_updatedAt x))]"

definition transition_json :: "Transition \<Rightarrow> json" where
  "transition_json t =
     JObj [(''from'', str_json (from_zone t)), (''to'', str_json (to_zone t)),
           (''at'', JNum (at_time t))]"

definition activity_json :: "ActivityState \<Rightarrow> json" where
  "activity_json a =
     JObj [(''currentZone'', str_json (currentZone a)),
           (''zoneEnteredAt'', num_json (zoneEnteredAt a)),
           (''lastTransition'',
              (case lastTransition a of None \<Rightarrow> JNull | Some t \<Rightarrow> transition_json t)),
           (''isStationary'', JBool (isStationary a)),
           (''stationarySince'', num_json (stationarySince a))]"

definition meta_json :: "ContextMeta \<Rightarrow> json" where
  "meta_json m =
     JObj [(''lastEventAt'', JNum (lastEventAt m)), (''eventsToday'', JNum (eventsToday m)),
           (''lastAgentPushAt'', JNum (lastAgentPushAt m)), (''pushesToday'', JNum (pushesToday m))]"

definition sanitizedContext :: "DeviceContext \<Rightarrow> json" where
  "sanitizedContext c =
     JObj [(''device'',
              JObj [(''battery'',
                       (case battery (device c) of None \<Rightarrow> JNull | Some b \<Rightarrow> battery_json b)),
                    (''location'',
                       (case location (device c) of
                          None \<Rightarrow> JNull
                        | Some l \<Rightarrow> sanitized_location_json l)),
                    (''health'',
                       (case health (device c) of None \<Rightarrow> JNull | Some x \<Rightarrow> health_json x))]),
           (''activity'', activity_json (activity c)),
           (''meta'', meta_json (meta c))]"

text \<open>An event whose \<open>metadata\<close> is \<open>undefined\<close> is printed without that property.\<close>

definition event_json :: "DeviceEvent \<Rightarrow> json" where
  "event_json ev =
     JObj ([(''subscriptionId'', JStr (subscriptionId ev)), (''source'', JStr (source ev)),
            (''data'', JObj (map (\<lambda>(k, v). (k, JNum v)) (data ev)))]
           @ (case metadata ev of
                None \<Rightarrow> []
              | Some md \<Rightarrow> [(''metadata'', JObj (map (\<lambda>(k, v). (k, JStr v)) md))])
           @ [(''firedAt'', JNum (firedAt ev))])"

text \<open>\<open>buildPrompt\<close>: the five fixed lines, then the four lines that depend on the
  arguments; \<open>stamp\<close> is \<open>new Date().toISOString()\<close> at the time of the call.\<close>

definition prompt_instructions :: "string list" where
  "prompt_instructions =
     [''You are an event triage system for a personal AI assistant.'',
      ''Given the device context and a new event, decide: should the AI assistant be told about this?'',
      [],
      ''Respond with ONLY valid JSON: {'' @ dquote @ ''push'' @ dquote @ '': true/false, ''
        @ dquote @ ''reason'' @ dquote @ '': '' @ dquote @ ''one sentence'' @ dquote @ ''}'',
      []]"

definition buildPrompt ::
  "Host \<Rightarrow> string \<Rightarrow> DeviceEvent \<Rightarrow> DeviceContext \<Rightarrow> jsnum \<Rightarrow> jsnum \<Rightarrow> string" where
  "buildPrompt h stamp ev c pushes budget =
     join_with newline
       (prompt_instructions @
        [''Context: '' @ stringify (toStr h) (sanitizedContext c),
         ''Event: '' @ stringify (toStr h) (event_json ev),
         ''Pushes today: '' @ toStr h pushes @ '' of ~'' @ toStr h budget @ '' budget'',
         ''Time: '' @ stamp])"

text \<open>\<open>extractText\<close>: the first payload that is a string, or has a string \<open>text\<close>, or has a
  \<open>content\<close> array with an item that has a string \<open>text\<close>. \<open>PObject t cs\<close> is an object
  payload: \<open>t\<close> is its \<open>text\<close> when that is a string, \<open>cs\<close> its \<open>content\<close> when that is an
  array, an item of which is a \<open>TextItem\<close> when it is truthy and has a string \<open>text\<close>.\<close>

fun first_text :: "content_item list \<Rightarrow> string option" where
  "first_text [] = None"
| "first_text (TextItem t # cs) = Some t"
| "first_text (OtherItem # cs) = first_text cs"

fun extractText :: "payload list \<Rightarrow> string" where
  "extractText [] = []"
| "extractText (PString s # ps) = s"
| "extractText (PObject (Some t) cs # ps) = t"
| "extractText (PObject None (Some cs) # ps) =
     (case first_text cs of Some t \<Rightarrow> t | None \<Rightarrow> extractText ps)"
| "extractText (PObject None None # ps) = extractText ps"
| "extractText (POther # ps) = extractText ps"

definition fail_open :: "string \<Rightarrow> JudgmentResult" where
  "fail_open what = \<lparr> push = True, judgment_reason = what @ '' '' @ emdash @ '' fail open'' \<rparr>"

text \<open>What the code reads from the parsed reply. Reading a property of \<open>null\<close> throws inside
  the inner \<open>try\<close>, which answers as for a reply that does not parse; any other value that
  is not an object has neither property.\<close>

definition read_reply :: "json \<Rightarrow> JudgmentResult" where
  "read_reply parsed =
     (case parsed of
        JNull \<Rightarrow> fail_open ''llm returned invalid json''
      | JObj kvs \<Rightarrow>
          \<lparr> push = (map_of kvs ''push'' = Some (JBool True)),
            judgment_reason =
              (case map_of kvs ''reason'' of Some (JStr s) \<Rightarrow> s | _ \<Rightarrow> ''no reason given'') \<rparr>
      | _ \<Rightarrow> \<lparr> push = False, judgment_reason = ''no reason given'' \<rparr>)"

definition provider_of :: "string \<Rightarrow> string" where
  "provider_of m = (case split_on (CHR ''/'') m of [] \<Rightarrow> [] | p # ps \<Rightarrow> p)"

definition model_of :: "string \<Rightarrow> string" where
  "model_of m = (case split_on (CHR ''/'') m of [] \<Rightarrow> [] | p # ps \<Rightarrow> join_with ''/'' ps)"

definition JudgmentLayer_evaluate ::
  "Host \<Rightarrow> PluginConfig \<Rightarrow> string \<Rightarrow> DeviceEvent \<Rightarrow> DeviceContext \<Rightarrow> JudgmentResult" where
  "JudgmentLayer_evaluate h cfg stamp ev c =
     (let prompt = buildPrompt h stamp ev c (pushesToday (meta c)) (pushBudgetPerDay cfg);
          provider = provider_of (llmModel cfg);
          model = model_of (llmModel cfg)
      in if provider = [] \<or> model = [] then fail_open ''llm model not configured''
         else (case runEmbeddedPiAgent h prompt provider model of
                 Throws \<Rightarrow> fail_open ''llm call failed''
               | Returns payloads \<Rightarrow>
                   (let text = extractText (nullish payloads []) in
                    if text = [] then fail_open ''llm returned empty''
                    else (case JSON_parse h (stripFences h text) of
                            None \<Rightarrow> fail_open ''llm returned invalid json''
                          | Some parsed \<Rightarrow> read_reply parsed))))"

section \<open>Event log (events.ts)\<close>

datatype Decision = DecPush | DecDrop | DecDefer

record EventLogEntry =
  event :: DeviceEvent
  decision :: Decision
  entry_reason :: string
  timestamp :: jsnum

text \<open>
  The log file is the list of the entries on its lines, or \<open>None\<close> when it cannot be read
  or one of its lines does not parse; \<open>readAll\<close> then answers the empty list. A write that
  fails throws: \<open>ok\<close> tells whether the write of this call succeeds.
\<close>

definition MAX_LINES :: nat where
  "MAX_LINES = 10000"

definition MAX_AGE_MS :: real where
  "MAX_AGE_MS = 30 * 24 * 60 * 60 * 1000"

definition readAll :: "EventLogEntry list option \<Rightarrow> EventLogEntry list" where
  "readAll f = (case f of None \<Rightarrow> [] | Some es \<Rightarrow> es)"

definition readSince :: "EventLogEntry list option \<Rightarrow> jsnum \<Rightarrow> EventLogEntry list" where
  "readSince f sinceEpoch = filter (\<lambda>e. js_ge (timestamp e) sinceEpoch) (readAll f)"

definition rotate_cutoff :: "jsnum \<Rightarrow> jsnum" where
  "rotate_cutoff now_ms = js_sub (js_div_pos now_ms 1000) (Fin (MAX_AGE_MS / 1000))"

text \<open>\<open>slice(-n)\<close> for a positive \<open>n\<close>: the last \<open>n\<close> elements.\<close>

definition slice_last :: "nat \<Rightarrow> 'a list \<Rightarrow> 'a list" where
  "slice_last n xs = drop (length xs - n) xs"

text \<open>\<open>rotate\<close> answers the file it leaves and the number it returns, or \<open>None\<close> when the
  write throws.\<close>

definition EventLog_rotate ::
  "bool \<Rightarrow> jsnum \<Rightarrow> EventLogEntry list option \<Rightarrow> (EventLogEntry list option \<times> int) option" where
  "EventLog_rotate ok now_ms f =
     (let entries = readAll f in
      if length entries \<le> MAX_LINES then Some (f, 0)
      else
        (let cutoff = rotate_cutoff now_ms;
             kept = slice_last MAX_LINES (filter (\<lambda>e. js_ge (timestamp e) cutoff) entries);
             removed = int (length entries) - int (length kept)
         in if ok then Some (Some kept, removed) else None))"

section \<open>Pipeline (pipeline.ts)\<close>

text \<open>
  \<open>processEvent\<close> on the state it changes: the context, the rules engine and the entries it
  appends to the log. \<open>now_log\<close> and \<open>now_push\<close> are the readings of \<open>Date.now()\<close> for the log
  entry and for \<open>recordPush\<close>. The delivery command that follows a push changes none of
  the three (its failure is caught and logged) and is left out.
\<close>

record Pipeline =
  ctx :: DeviceContext
  rules :: RulesEngine
  appended :: "EventLogEntry list"

definition decide ::
  "Host \<Rightarrow> PluginConfig \<Rightarrow> string \<Rightarrow> RulesEngine \<Rightarrow> DeviceEvent \<Rightarrow> DeviceContext \<Rightarrow> FilterDecision" where
  "decide h cfg stamp r ev c =
     (let decision = RulesEngine_evaluate h r ev c in
      if action decision = Ambiguous then
        (let result = JudgmentLayer_evaluate h cfg stamp ev c in
         if push result then \<lparr> action = Push, reason = ''llm: '' @ judgment_reason result \<rparr>
         else \<lparr> action = Drop, reason = ''llm: '' @ judgment_reason result \<rparr>)
      else decision)"

definition processEvent ::
  "Host \<Rightarrow> PluginConfig \<Rightarrow> string \<Rightarrow> jsnum \<Rightarrow> jsnum \<Rightarrow> Pipeline \<Rightarrow> DeviceEvent \<Rightarrow> Pipeline" where
  "processEvent h cfg stamp now_log now_push st ev =
     (let c = updateFromEvent (ctx st) ev;
          d = decide h cfg stamp (rules st) ev c;
          entry = \<lparr> event = ev,
                    decision = (if action d = Push then DecPush
                                else if action d = Defer then DecDefer else DecDrop),
                    entry_reason = reason d,
                    timestamp = js_div_pos now_log 1000 \<rparr>;
          logged = appended st @ [entry]
      in if action d = Push then
           \<lparr> ctx = recordPush c now_push,
             rules = recordFired (rules st) (subscriptionId ev) (firedAt ev),
             appended = logged \<rparr>
         else \<lparr> ctx = c, rules = rules st, appended = logged \<rparr>)"

section \<open>Pattern engine (patterns.ts)\<close>

datatype Trend = Improving | Stable | Declining

record LocationRoutine =
  zone :: string
  typicalLeave :: "string option"
  typicalArrive :: "string option"

record LocationRoutines =
  weekday :: "LocationRoutine list"
  weekend :: "LocationRoutine list"

record HealthTrends =
  stepsAvg7d :: "jsnum option"
  stepsAvg30d :: "jsnum option"
  stepsTrend :: "Trend option"
  sleepAvg7d :: "jsnum option"
  sleepTrend :: "Trend option"
  restingHrAvg7d :: "jsnum option"
  restingHrTrend :: "Trend option"

record BatteryPatterns =
  avgDrainPerHour :: "jsnum option"
  typicalChargeTime :: "string option"
  lowBatteryFrequency :: "jsnum option"

record EventStats =
  eventsPerDay7d :: jsnum
  pushesPerDay7d :: jsnum
  dropRate7d :: jsnum
  topSources :: "string list"

record Patterns =
  locationRoutines :: LocationRoutines
  healthTrends :: HealthTrends
  batteryPatterns :: BatteryPatterns
  eventStats :: EventStats
  triggerCooldowns :: "string \<Rightarrow> jsnum option"
  computedAt :: jsnum

definition emptyPatterns :: Patterns where
  "emptyPatterns =
     \<lparr> locationRoutines = \<lparr> weekday = [], weekend = [] \<rparr>,
       healthTrends = \<lparr> stepsAvg7d = None, stepsAvg30d = None, stepsTrend = None,
                        sleepAvg7d = None, sleepTrend = None,
                        restingHrAvg7d = None, restingHrTrend = None \<rparr>,
       batteryPatterns = \<lparr> avgDrainPerHour = None, typicalChargeTime = None,
                           lowBatteryFrequency = None \<rparr>,
       eventStats = \<lparr> eventsPerDay7d = Fin 0, pushesPerDay7d = Fin 0, dropRate7d = Fin 0,
                      topSources = [] \<rparr>,
       triggerCooldowns = Map.empty,
       computedAt = Fin 0 \<rparr>"

text \<open>
  The four analytic passes of \<open>compute\<close> are functions of the entries read from the log.
  They read the wall clock, the local time zone and divide doubles by doubles, so they are
  parameters here; \<open>compute\<close> only stores what they return.
\<close>

record Analyzers =
  computeLocationRoutines :: "EventLogEntry list \<Rightarrow> LocationRoutines"
  computeHealthTrends :: "EventLogEntry list \<Rightarrow> HealthTrends"
  computeBatteryPatterns :: "EventLogEntry list \<Rightarrow> BatteryPatterns"
  computeEventStats :: "EventLogEntry list \<Rightarrow> EventStats"

text \<open>The two files of the state directory that \<open>compute\<close> touches. The patterns file is
  \<open>None\<close> when it is missing or does not parse; \<open>readPatterns\<close> then answers \<open>null\<close>.\<close>

record Files =
  events_file :: "EventLogEntry list option"
  patterns_file :: "Patterns option"

text \<open>The readings of \<open>Date.now()\<close> and the fate of the two writes during one \<open>compute\<close>.\<close>

record ComputeRun =
  now_start :: jsnum
  now_computed :: jsnum
  now_rotate :: jsnum
  patterns_write_ok :: bool
  rotate_write_ok :: bool

text \<open>The document that \<open>compute\<close> hands to \<open>writePatterns\<close>.\<close>

definition computed_patterns :: "Analyzers \<Rightarrow> jsnum \<Rightarrow> ComputeRun \<Rightarrow> Files \<Rightarrow> Patterns" where
  "computed_patterns an windowDays run fs =
     (let windowStart = js_sub (js_div_pos (now_start run) 1000) (js_mul_pos windowDays 86400);
          entries = readSince (events_file fs) windowStart;
          existing = nullish (patterns_file fs) emptyPatterns
      in \<lparr> locationRoutines = computeLocationRoutines an entries,
           healthTrends = computeHealthTrends an entries,
           batteryPatterns = computeBatteryPatterns an entries,
           eventStats = computeEventStats an entries,
           triggerCooldowns = triggerCooldowns existing,
           computedAt = js_div_pos (now_computed run) 1000 \<rparr>)"

text \<open>\<open>compute\<close> answers the files it leaves and the patterns it returns, or \<open>None\<close> when
  one of its writes throws.\<close>

definition PatternEngine_compute ::
  "Analyzers \<Rightarrow> jsnum \<Rightarrow> ComputeRun \<Rightarrow> Files \<Rightarrow> (Files \<times> Patterns) option" where
  "PatternEngine_compute an windowDays run fs =
     (let patterns = computed_patterns an windowDays run fs in
      if \<not> patterns_write_ok run then None
      else (case EventLog_rotate (rotate_write_ok run) (now_rotate run) (events_file fs) of
              None \<Rightarrow> None
            | Some (f, removed) \<Rightarrow>
                Some (\<lparr> events_file = f, patterns_file = Some patterns \<rparr>, patterns)))"

section \<open>Proactive engine (triggers.ts)\<close>
















section \<open>An example host\<close>

text \<open>
  A host for the worked examples below: the process runs in UTC, and a finite number is
  printed in positional decimal notation with at most 17 fractional digits, which is what
  JavaScript prints for the integers and short decimal fractions the examples use.
\<close>

definition digit_char :: "nat \<Rightarrow> char" where
  "digit_char d = ''0123456789'' ! (d mod 10)"

fun nat_digits :: "nat \<Rightarrow> string" where
  "nat_digits n =
     (if n < 10 then [digit_char n] else nat_digits (n div 10) @ [digit_char (n mod 10)])"

fun frac_digits :: "nat \<Rightarrow> real \<Rightarrow> string" where
  "frac_digits k x =
     (if k = 0 \<or> x = 0 then []
      else digit_char (nat \<lfloor>x * 10\<rfloor>) # frac_digits (k - 1) (x * 10 - of_int \<lfloor>x * 10\<rfloor>))"

declare nat_digits.simps [simp del] frac_digits.simps [simp del]

definition print_real :: "real \<Rightarrow> string" where
  "print_real x =
     (if x < 0 then ''-'' else []) @ nat_digits (nat \<lfloor>\<bar>x\<bar>\<rfloor>)
       @ (if frac \<bar>x\<bar> = 0 then [] else ''.'' @ frac_digits 17 (frac \<bar>x\<bar>))"

fun print_num :: "jsnum \<Rightarrow> string" where
  "print_num NaN = ''NaN''"
| "print_num PInf = ''Infinity''"
| "print_num NInf = ''-Infinity''"
| "print_num (Fin x) = print_real x"

fun utc_hours :: "jsnum \<Rightarrow> jsnum" where
  "utc_hours (Fin ms) = Fin (of_int ((\<lfloor>ms / 3600000\<rfloor>) mod 24))"
| "utc_hours a = NaN"

definition utc_host :: "(string \<Rightarrow> json option) \<Rightarrow> invocation \<Rightarrow> Host" where
  "utc_host parse reply =
     \<lparr> toStr = print_num, getHours = utc_hours, JSON_parse = parse, stripFences = (\<lambda>s. s),
       runEmbeddedPiAgent = (\<lambda>prompt provider model. reply) \<rparr>"

section \<open>Worked examples\<close>

text \<open>The events and states of the repository's tests, used to evaluate the theorems below on
  concrete inputs.\<close>

definition battery_event :: "string \<Rightarrow> (string \<times> jsnum) list \<Rightarrow> real \<Rightarrow> DeviceEvent" where
  "battery_event sid dat t =
     \<lparr> subscriptionId = sid, source = ''device.battery'', data = dat, metadata = None,
       firedAt = Fin t \<rparr>"

definition geofence_event :: "real \<Rightarrow> (string \<times> string) list option \<Rightarrow> real \<Rightarrow> DeviceEvent" where
  "geofence_event ty md t =
     \<lparr> subscriptionId = ''default.geofence'', source = ''geofence.triggered'',
       data = [(''type'', Fin ty), (''latitude'', Fin 48.1351), (''longitude'', Fin 11.582),
               (''timestamp'', Fin t)],
       metadata = md, firedAt = Fin t \<rparr>"

definition custom_event :: "(string \<times> jsnum) list \<Rightarrow> real \<Rightarrow> DeviceEvent" where
  "custom_event dat t =
     \<lparr> subscriptionId = ''custom.something'', source = ''custom.source'', data = dat,
       metadata = None, firedAt = Fin t \<rparr>"

definition fresh_rules :: RulesEngine where
  "fresh_rules = \<lparr> lastFired = Map.empty, pushBudget = Fin 10 \<rparr>"

text \<open>The context after one battery event at 1740000000.\<close>

definition context_one :: DeviceContext where
  "context_one =
     updateFromEvent empty_context
       (battery_event ''test'' [(''level'', Fin 0.5), (''updatedAt'', Fin 1740000000)] 1740000000)"

definition quiet_host :: Host where
  "quiet_host = utc_host (\<lambda>s. None) Throws"

text \<open>The rules engine after \<open>recordFired("default.battery-low", 1740000000)\<close>.\<close>

definition rules_fired :: RulesEngine where
  "rules_fired = recordFired fresh_rules ''default.battery-low'' (Fin 1740000000)"

text \<open>A context with a charging battery in low-power mode, and one with a health record.\<close>

definition context_low_power :: DeviceContext where
  "context_low_power =
     empty_context\<lparr> device := (device empty_context)\<lparr> battery :=
       Some \<lparr> level = Fin 0.5, state = ''charging'', isLowPowerMode = True,
              updatedAt = Fin 1740000000 \<rparr> \<rparr> \<rparr>"

definition context_health :: DeviceContext where
  "context_health =
     updateFromEvent context_low_power
       \<lparr> subscriptionId = ''default.daily-health'', source = ''health.summary'',
         data = [(''stepsToday'', Fin 8000), (''heartRateAvg'', Fin 72),
                 (''updatedAt'', Fin 1740000000)],
         metadata = None, firedAt = Fin 1740000000 \<rparr>"

text \<open>The geofence events of the tests: entering and leaving the zone "Home", and an enter
  event without metadata.\<close>

definition enter_home :: DeviceEvent where
  "enter_home = geofence_event 1 (Some [(''zoneName'', ''Home''), (''transitionType'', ''enter'')])
                  1740000000"

definition exit_home :: DeviceEvent where
  "exit_home = geofence_event 0 (Some [(''zoneName'', ''Home''), (''transitionType'', ''exit'')])
                 1740000100"

definition enter_unnamed :: DeviceEvent where
  "enter_unnamed = geofence_event 1 None 1740000000"

definition context_home :: DeviceContext where
  "context_home = updateFromEvent context_health enter_home"


text \<open>Analytic passes that find nothing, a patterns document with one cooldown, and a run
  of \<open>compute\<close> at 1740000000 whose writes succeed.\<close>

definition no_analysis :: Analyzers where
  "no_analysis =
     \<lparr> computeLocationRoutines = (\<lambda>entries. locationRoutines emptyPatterns),
       computeHealthTrends = (\<lambda>entries. healthTrends emptyPatterns),
       computeBatteryPatterns = (\<lambda>entries. batteryPatterns emptyPatterns),
       computeEventStats = (\<lambda>entries. eventStats emptyPatterns) \<rparr>"

definition patterns_cooled :: Patterns where
  "patterns_cooled =
     emptyPatterns\<lparr> triggerCooldowns := [''sleep-deficit'' \<mapsto> Fin 1739990000] \<rparr>"

definition good_run :: ComputeRun where
  "good_run =
     \<lparr> now_start = Fin 1740000000000, now_computed = Fin 1740000000000,
       now_rotate = Fin 1740000000000, patterns_write_ok = True, rotate_write_ok = True \<rparr>"




text \<open>The default configuration of the plugin, and one whose model name has no provider
  part.\<close>

definition default_config :: PluginConfig where
  "default_config =
     \<lparr> llmModel = ''openai/gpt-4o-mini'', pushBudgetPerDay = Fin 10, patternWindowDays = Fin 14,
       proactiveEnabled = True \<rparr>"

definition bare_model_config :: PluginConfig where
  "bare_model_config = default_config\<lparr> llmModel := ''gpt-4o-mini'' \<rparr>"

text \<open>A parser for the examples that knows one reply, and one that rejects everything.\<close>

definition parse_drop_reply :: "string \<Rightarrow> json option" where
  "parse_drop_reply s =
     (if s = ''{'' @ dquote @ ''push'' @ dquote @ '':false,'' @ dquote @ ''reason'' @ dquote
             @ '':'' @ dquote @ ''routine'' @ dquote @ ''}''
      then Some (JObj [(''push'', JBool False), (''reason'', JStr ''routine'')])
      else None)"

definition example_stamp :: string where
  "example_stamp = ''2025-02-19T21:20:00.000Z''"

text \<open>The context of the test "builds prompt with sanitized context", and one whose zone
  name contains double quotes.\<close>

definition context_located :: DeviceContext where
  "context_located =
     empty_context\<lparr> device := (device empty_context)\<lparr> location :=
       Some \<lparr> latitude = Fin 48.1351, longitude = Fin 11.582, horizontalAccuracy = Fin 15,
              label = Some ''Home'', loc_updatedAt = Fin 1740000000 \<rparr> \<rparr> \<rparr>"

definition context_quoted :: DeviceContext where
  "context_quoted =
     empty_context\<lparr> device := (device empty_context)\<lparr> location :=
       Some \<lparr> latitude = Fin 48.1351, longitude = Fin 11.582, horizontalAccuracy = Fin 15,
              label = Some (dquote @ ''Home'' @ dquote), loc_updatedAt = Fin 1740000000 \<rparr> \<rparr> \<rparr>"

section \<open>Properties\<close>

subsection \<open>Strings and printed numbers\<close>

lemma str_includes_sublist: "str_includes s sub = sublist sub s"
  by (induction s) (auto simp: sublist_Cons_right)

lemma str_includes_append: "str_includes (p @ sub @ q) sub"
  by (simp add: str_includes_sublist)

lemma no_dedup_after_p:
  assumes "CHR ''p'' \<notin> set rest"
  shows "\<not> str_includes (CHR ''p'' # rest) ''dedup''"
proof
  assume "str_includes (CHR ''p'' # rest) ''dedup''"
  then obtain ps ss where eq: "CHR ''p'' # rest = ps @ ''dedup'' @ ss"
    by (auto simp: str_includes_sublist sublist_def)
  show False
  proof (cases ps)
    case Nil
    with eq show False by simp
  next
    case (Cons x ps')
    with eq have "rest = ps' @ ''dedup'' @ ss" by simp
    then have "CHR ''p'' \<in> set rest" by simp
    with assms show False by contradiction
  qed
qed

lemmas print_eval = nat_digits.simps frac_digits.simps digit_char_def print_real_def frac_def

lemma digit_char_digit: "digit_char d \<in> set ''0123456789''"
  unfolding digit_char_def by (rule nth_mem) simp

lemma nat_digits_in:
  assumes D: "\<And>d. digit_char d \<in> D"
  shows "set (nat_digits n) \<subseteq> D"
proof (induction n rule: nat_digits.induct)
  case (1 n)
  show ?case
  proof (cases "n < 10")
    case True
    then show ?thesis using D[of n] by (subst nat_digits.simps) simp
  next
    case False
    then show ?thesis using 1 D[of "n mod 10"]
      by (subst nat_digits.simps) simp
  qed
qed

lemma frac_digits_in:
  assumes D: "\<And>d. digit_char d \<in> D"
  shows "set (frac_digits k x) \<subseteq> D"
proof (induction k x rule: frac_digits.induct)
  case (1 k x)
  show ?case
  proof (cases "k = 0 \<or> x = 0")
    case True
    then show ?thesis by (subst frac_digits.simps) simp
  next
    case False
    then show ?thesis using 1 D[of "nat \<lfloor>x * 10\<rfloor>"]
      by (subst frac_digits.simps) simp
  qed
qed

lemma print_real_no_p: "CHR ''p'' \<notin> set (print_real x)"
proof -
  define D where "D = set ''0123456789''"
  have D: "\<And>d. digit_char d \<in> D" unfolding D_def by (rule digit_char_digit)
  have p: "CHR ''p'' \<notin> D" unfolding D_def by simp
  have "CHR ''p'' \<notin> set (nat_digits (nat \<lfloor>\<bar>x\<bar>\<rfloor>))"
    using nat_digits_in[OF D, of "nat \<lfloor>\<bar>x\<bar>\<rfloor>"] p by blast
  moreover have "CHR ''p'' \<notin> set (frac_digits 17 (frac \<bar>x\<bar>))"
    using frac_digits_in[OF D, of 17 "frac \<bar>x\<bar>"] p by blast
  ultimately show ?thesis by (simp add: print_real_def)
qed

lemma print_num_no_p: "CHR ''p'' \<notin> set (print_num a)"
  by (cases a) (simp_all add: print_real_no_p)

lemma js_lt_irrefl: "\<not> js_lt a a"
  by (cases a) simp_all

subsection \<open>Daily counters\<close>

text \<open>
  C1. \<open>updateFromEvent\<close> sets \<open>lastEventAt\<close> to the event's \<open>firedAt\<close>. If \<open>lastEventAt\<close> was
  positive and the UTC day of \<open>firedAt\<close> differs from the UTC day of \<open>lastEventAt\<close>, then
  \<open>eventsToday\<close> becomes 1 and \<open>pushesToday\<close> becomes 0; otherwise \<open>eventsToday\<close> is
  incremented by 1.
\<close>

theorem updateFromEvent_daily_counters:
  "(js_gt (lastEventAt (meta c)) (Fin 0)
      \<and> \<not> js_seq (utc_day (firedAt ev)) (utc_day (lastEventAt (meta c)))
     \<longrightarrow> eventsToday (meta (updateFromEvent c ev)) = Fin 1
         \<and> pushesToday (meta (updateFromEvent c ev)) = Fin 0)
   \<and> (\<not> (js_gt (lastEventAt (meta c)) (Fin 0)
          \<and> \<not> js_seq (utc_day (firedAt ev)) (utc_day (lastEventAt (meta c))))
     \<longrightarrow> eventsToday (meta (updateFromEvent c ev)) = js_add (eventsToday (meta c)) (Fin 1))
   \<and> lastEventAt (meta (updateFromEvent c ev)) = firedAt ev"
  by (auto simp: updateFromEvent_def update_meta_def rollover_def Let_def js_seq_def)

lemma context_one_meta:
  "meta context_one = \<lparr> lastEventAt = Fin 1740000000, eventsToday = Fin 1,
                        lastAgentPushAt = Fin 0, pushesToday = Fin 0 \<rparr>"
  by (simp add: context_one_def updateFromEvent_def update_meta_def rollover_def Let_def
      empty_context_def battery_event_def js_gt_def)

text \<open>The third event of the test "resets daily counters on day change" arrives on the next
  UTC day, the second one on the same day.\<close>

theorem updateFromEvent_daily_counters_witness:
  "(js_gt (lastEventAt (meta context_one)) (Fin 0)
      \<and> \<not> js_seq (utc_day (firedAt (battery_event ''test'' [(''level'', Fin 0.3)] 1740090000)))
                 (utc_day (lastEventAt (meta context_one))))
   \<and> eventsToday (meta (updateFromEvent context_one
        (battery_event ''test'' [(''level'', Fin 0.3)] 1740090000))) = Fin 1
   \<and> pushesToday (meta (updateFromEvent context_one
        (battery_event ''test'' [(''level'', Fin 0.3)] 1740090000))) = Fin 0
   \<and> \<not> (js_gt (lastEventAt (meta context_one)) (Fin 0)
      \<and> \<not> js_seq (utc_day (firedAt (battery_event ''test'' [(''level'', Fin 0.4)] 1740000100)))
                 (utc_day (lastEventAt (meta context_one))))
   \<and> eventsToday (meta (updateFromEvent context_one
        (battery_event ''test'' [(''level'', Fin 0.4)] 1740000100))) = Fin 2"
proof -
  have next_day: "js_gt (lastEventAt (meta context_one)) (Fin 0)
      \<and> \<not> js_seq (utc_day (firedAt (battery_event ''test'' [(''level'', Fin 0.3)] 1740090000)))
                 (utc_day (lastEventAt (meta context_one)))"
    by (simp add: context_one_meta battery_event_def js_gt_def js_seq_def utc_day_def)
  have same_day: "\<not> (js_gt (lastEventAt (meta context_one)) (Fin 0)
      \<and> \<not> js_seq (utc_day (firedAt (battery_event ''test'' [(''level'', Fin 0.4)] 1740000100)))
                 (utc_day (lastEventAt (meta context_one))))"
    by (simp add: context_one_meta battery_event_def js_gt_def js_seq_def utc_day_def)
  have two: "js_add (eventsToday (meta context_one)) (Fin 1) = Fin 2"
    by (simp add: context_one_meta)
  from next_day same_day two
    updateFromEvent_daily_counters[of context_one
      "battery_event ''test'' [(''level'', Fin 0.3)] 1740090000"]
    updateFromEvent_daily_counters[of context_one
      "battery_event ''test'' [(''level'', Fin 0.4)] 1740000100"]
  show ?thesis by simp
qed

subsection \<open>Rules engine\<close>

lemma budget_reason_no_dedup:
  assumes "CHR ''p'' \<notin> set a" "CHR ''p'' \<notin> set b"
  shows "\<not> str_includes (''push budget exhausted ('' @ a @ ''/'' @ b @ '' today)'') ''dedup''"
proof -
  have "CHR ''p'' \<notin> set (''ush budget exhausted ('' @ a @ ''/'' @ b @ '' today)'')"
    using assms by simp
  from no_dedup_after_p[OF this] show ?thesis by simp
qed

lemma dedup_reason_includes: "str_includes (dedup_reason h r ev) ''dedup''"
  by (simp add: dedup_reason_def)

lemma unchanged_reason_no_dedup:
  "\<not> str_includes ''battery-low: level unchanged since last push'' ''dedup''"
  by simp

lemma evaluate_not_in_cooldown:
  assumes "\<not> in_cooldown r ev"
  shows "RulesEngine_evaluate h r ev c
         = RulesEngine_evaluate h (r\<lparr> lastFired := (lastFired r)(subscriptionId ev := None) \<rparr>) ev c"
  using assms by (simp add: RulesEngine_evaluate_def in_cooldown_def)

lemma js_sub_NaN: "js_sub a NaN = NaN"
  by (cases a) (simp_all add: js_sub_def)

lemma cooldown_of_table:
  assumes "sid \<notin> set object_prototype_keys"
  shows "cooldown_of sid = table_cooldown sid"
  using assms
  by (simp add: cooldown_of_def DEDUP_COOLDOWN_def DEFAULT_COOLDOWN_def table_cooldown_def
      nullish_def)

text \<open>
  C3, as amended. For an event that is not a debug event, whose \<open>subscriptionId\<close> is not the
  name of a member inherited from \<open>Object.prototype\<close> and has a recorded \<open>lastFired\<close> entry
  other than 0, \<open>evaluate\<close> answers \<open>drop\<close> with a reason that contains "dedup" exactly when
  \<open>firedAt - lastFired < cooldown\<close>, the cooldown being the value of the table for the
  subscription, else 1800 s; and when \<open>firedAt - lastFired\<close> equals the cooldown, the answer
  is the one \<open>evaluate\<close> gives without the entry, that is, the event falls through to the
  later rules. The host's printed numbers contain no letter \<open>p\<close>, as no number printed by
  JavaScript does.
\<close>

theorem dedup_window_strict:
  assumes "lastFired r (subscriptionId ev) = Some t" and "t \<noteq> Fin 0" and "\<not> is_debug ev"
    and "subscriptionId ev \<notin> set object_prototype_keys"
    and "\<forall>x. CHR ''p'' \<notin> set (toStr h x)"
  shows "((action (RulesEngine_evaluate h r ev c) = Drop
           \<and> str_includes (reason (RulesEngine_evaluate h r ev c)) ''dedup'')
          \<longleftrightarrow> js_lt (js_sub (firedAt ev) t) (table_cooldown (subscriptionId ev)))
       \<and> (js_sub (firedAt ev) t = table_cooldown (subscriptionId ev) \<longrightarrow>
           RulesEngine_evaluate h r ev c
           = RulesEngine_evaluate h (r\<lparr> lastFired := (lastFired r)(subscriptionId ev := None) \<rparr>) ev c)"
proof -
  have table: "cooldown_of (subscriptionId ev) = table_cooldown (subscriptionId ev)"
    using assms(4) by (rule cooldown_of_table)
  have cd: "in_cooldown r ev
      \<longleftrightarrow> js_lt (js_sub (firedAt ev) t) (table_cooldown (subscriptionId ev))"
  proof (cases "t = NaN")
    case True
    then show ?thesis using assms(1) by (simp add: in_cooldown_def js_truthy_def js_sub_NaN)
  next
    case False
    with assms(2) have "js_truthy t" by (simp add: js_truthy_def)
    then show ?thesis using assms(1) table by (simp add: in_cooldown_def)
  qed
  have budget: "\<not> str_includes (''push budget exhausted ('' @ toStr h (pushesToday (meta c)) @ ''/''
                   @ toStr h (pushBudget r) @ '' today)'') ''dedup''"
    using assms(5) by (intro budget_reason_no_dedup) simp_all
  have first: "(action (RulesEngine_evaluate h r ev c) = Drop
           \<and> str_includes (reason (RulesEngine_evaluate h r ev c)) ''dedup'') \<longleftrightarrow> in_cooldown r ev"
  proof (cases "in_cooldown r ev")
    case True
    then show ?thesis using assms(3) dedup_reason_includes[of h r ev]
      by (simp add: RulesEngine_evaluate_def)
  next
    case False
    then show ?thesis using assms(3) budget unchanged_reason_no_dedup
      by (simp add: RulesEngine_evaluate_def Let_def del: str_includes.simps)
  qed
  have second: "js_sub (firedAt ev) t = table_cooldown (subscriptionId ev) \<longrightarrow>
           RulesEngine_evaluate h r ev c
           = RulesEngine_evaluate h (r\<lparr> lastFired := (lastFired r)(subscriptionId ev := None) \<rparr>) ev c"
  proof
    assume "js_sub (firedAt ev) t = table_cooldown (subscriptionId ev)"
    then have "\<not> in_cooldown r ev" using cd js_lt_irrefl by simp
    then show "RulesEngine_evaluate h r ev c
           = RulesEngine_evaluate h (r\<lparr> lastFired := (lastFired r)(subscriptionId ev := None) \<rparr>) ev c"
      by (rule evaluate_not_in_cooldown)
  qed
  from first cd second show ?thesis by simp
qed

lemma quiet_host_no_p: "\<forall>x. CHR ''p'' \<notin> set (toStr quiet_host x)"
  by (simp add: quiet_host_def utc_host_def print_num_no_p)

lemma rules_fired_entry: "lastFired rules_fired ''default.battery-low'' = Some (Fin 1740000000)"
  by (simp add: rules_fired_def recordFired_def)

lemma cooldown_battery_low: "cooldown_of ''default.battery-low'' = Fin 3600"
  by (simp add: cooldown_of_def DEDUP_COOLDOWN_def nullish_def)

lemma battery_low_plain: "''default.battery-low'' \<notin> set object_prototype_keys"
  by (simp add: object_prototype_keys_def)

text \<open>The test "deduplicates within cooldown window" (1800 s after the push), and the same
  event exactly 3600 s after the push, which is pushed by the battery-low rule.\<close>

theorem dedup_window_strict_witness:
  "lastFired rules_fired (subscriptionId (battery_event ''default.battery-low''
       [(''level'', Fin 0.15)] 1740001800)) = Some (Fin 1740000000)
   \<and> Fin 1740000000 \<noteq> Fin 0
   \<and> \<not> is_debug (battery_event ''default.battery-low'' [(''level'', Fin 0.15)] 1740001800)
   \<and> subscriptionId (battery_event ''default.battery-low'' [(''level'', Fin 0.15)] 1740001800)
       \<notin> set object_prototype_keys
   \<and> (\<forall>x. CHR ''p'' \<notin> set (toStr quiet_host x))
   \<and> js_lt (js_sub (Fin 1740001800) (Fin 1740000000)) (table_cooldown ''default.battery-low'')
   \<and> action (RulesEngine_evaluate quiet_host rules_fired
        (battery_event ''default.battery-low'' [(''level'', Fin 0.15)] 1740001800) empty_context)
      = Drop
   \<and> str_includes (reason (RulesEngine_evaluate quiet_host rules_fired
        (battery_event ''default.battery-low'' [(''level'', Fin 0.15)] 1740001800) empty_context))
        ''dedup''
   \<and> js_sub (Fin 1740003600) (Fin 1740000000) = table_cooldown ''default.battery-low''
   \<and> action (RulesEngine_evaluate quiet_host rules_fired
        (battery_event ''default.battery-low'' [(''level'', Fin 0.15)] 1740003600) empty_context)
      = Push"
proof -
  let ?inside = "battery_event ''default.battery-low'' [(''level'', Fin 0.15)] 1740001800"
  let ?edge = "battery_event ''default.battery-low'' [(''level'', Fin 0.15)] 1740003600"
  have entry: "lastFired rules_fired (subscriptionId ?inside) = Some (Fin 1740000000)"
    and entry': "lastFired rules_fired (subscriptionId ?edge) = Some (Fin 1740000000)"
    by (simp_all add: rules_fired_entry battery_event_def)
  have nonzero: "Fin 1740000000 \<noteq> Fin 0"
    by simp
  have nodebug: "\<not> is_debug ?inside" and nodebug': "\<not> is_debug ?edge"
    by (simp_all add: is_debug_def battery_event_def)
  have plain: "subscriptionId ?inside \<notin> set object_prototype_keys"
    and plain': "subscriptionId ?edge \<notin> set object_prototype_keys"
    by (simp_all add: battery_event_def battery_low_plain)
  have inside: "js_lt (js_sub (Fin 1740001800) (Fin 1740000000))
      (table_cooldown ''default.battery-low'')"
    by (simp add: table_cooldown_def js_sub_def)
  have edge: "js_sub (Fin 1740003600) (Fin 1740000000) = table_cooldown ''default.battery-low''"
    by (simp add: table_cooldown_def js_sub_def)
  have fallthrough: "action (RulesEngine_evaluate quiet_host
        (rules_fired\<lparr> lastFired := (lastFired rules_fired)(subscriptionId ?edge := None) \<rparr>)
        ?edge empty_context) = Push"
    by (simp add: RulesEngine_evaluate_def is_debug_def in_cooldown_def battery_event_def
        level_unchanged_def empty_context_def)
  from dedup_window_strict[OF entry nonzero nodebug plain quiet_host_no_p, of empty_context] inside
  have dropped: "action (RulesEngine_evaluate quiet_host rules_fired ?inside empty_context) = Drop
      \<and> str_includes (reason (RulesEngine_evaluate quiet_host rules_fired ?inside empty_context))
           ''dedup''"
    by (simp add: battery_event_def)
  from dedup_window_strict[OF entry' nonzero nodebug' plain' quiet_host_no_p, of empty_context] edge
  have "RulesEngine_evaluate quiet_host rules_fired ?edge empty_context
        = RulesEngine_evaluate quiet_host
            (rules_fired\<lparr> lastFired := (lastFired rules_fired)(subscriptionId ?edge := None) \<rparr>)
            ?edge empty_context"
    by (simp add: battery_event_def)
  with fallthrough
  have pushed: "action (RulesEngine_evaluate quiet_host rules_fired ?edge empty_context) = Push"
    by simp
  from entry nonzero nodebug plain quiet_host_no_p inside dropped edge pushed show ?thesis
    by blast
qed

text \<open>
  C3 as stated fails in three ways. A debug event is pushed by the first rule although a
  push of its subscription was recorded 100 s before. An entry recorded with
  \<open>firedAt = 0\<close> is falsy, so an event 100 s later is not dropped by dedup. And for the
  subscription "toString" the read of \<open>DEDUP_COOLDOWN\<close> finds the method that the literal
  inherits, not a number, so an event 100 s after a recorded push is not dropped although
  100 is less than the default of 1800.
\<close>

theorem dedup_window_counterexample:
  "lastFired rules_fired ''default.battery-low'' = Some (Fin 1740000000)
   \<and> js_lt (js_sub (Fin 1740000100) (Fin 1740000000)) (table_cooldown ''default.battery-low'')
   \<and> action (RulesEngine_evaluate quiet_host rules_fired
        (battery_event ''default.battery-low'' [(''level'', Fin 0.15), (''_debugFired'', Fin 1)]
           1740000100) empty_context) = Push
   \<and> lastFired (recordFired fresh_rules ''custom.something'' (Fin 0)) ''custom.something''
      = Some (Fin 0)
   \<and> js_lt (js_sub (Fin 100) (Fin 0)) (table_cooldown ''custom.something'')
   \<and> action (RulesEngine_evaluate quiet_host (recordFired fresh_rules ''custom.something'' (Fin 0))
        (custom_event [(''value'', Fin 42)] 100) empty_context) = Ambiguous
   \<and> lastFired (recordFired fresh_rules ''toString'' (Fin 1740000000)) ''toString''
      = Some (Fin 1740000000)
   \<and> table_cooldown ''toString'' = Fin 1800
   \<and> js_lt (js_sub (Fin 1740000100) (Fin 1740000000)) (table_cooldown ''toString'')
   \<and> action (RulesEngine_evaluate quiet_host (recordFired fresh_rules ''toString'' (Fin 1740000000))
        \<lparr> subscriptionId = ''toString'', source = ''custom.source'',
          data = [(''value'', Fin 42)], metadata = None, firedAt = Fin 1740000100 \<rparr>
        empty_context) = Ambiguous"
  by (simp add: rules_fired_entry table_cooldown_def js_sub_def RulesEngine_evaluate_def
      is_debug_def battery_event_def js_seq_def recordFired_def fresh_rules_def custom_event_def
      in_cooldown_def js_truthy_def cooldown_of_def DEDUP_COOLDOWN_def nullish_def
      DEFAULT_COOLDOWN_def object_prototype_keys_def empty_context_def js_ge_def)

subsection \<open>Battery-low events through the pipeline\<close>

lemma updated_battery_level:
  assumes "source ev = ''device.battery''" and "map_of (data ev) ''level'' = Some l"
  shows "map_option level (battery (device (updateFromEvent c ev))) = Some l"
  using assms by (simp add: updateFromEvent_def update_battery_def nullish_def Let_def)

lemma finite_level_unchanged:
  assumes "source ev = ''device.battery''" and "map_of (data ev) ''level'' = Some l"
    and "is_finite l"
  shows "level_unchanged ev (updateFromEvent c ev)"
proof -
  from assms(3) obtain x where "l = Fin x"
    by (cases l) (simp_all add: is_finite_def)
  then have "js_lt (js_abs (js_sub l l)) (Fin (2 / 100))"
    by (simp add: js_sub_def)
  with updated_battery_level[OF assms(1,2), of c] assms(2) show ?thesis
    by (auto simp: level_unchanged_def)
qed

text \<open>
  C6, as amended. \<open>processEvent\<close> evaluates the rules on the context that the same event has
  just updated. For a \<open>default.battery-low\<close> event with source \<open>device.battery\<close>, a present and
  finite \<open>data.level\<close>, no debug flag and no active dedup cooldown, the decision is therefore
  \<open>drop\<close> with the reason "battery-low: level unchanged since last push": that is what is
  logged, and neither a push is counted nor the cooldown recorded.
\<close>

theorem battery_low_dropped_by_pipeline:
  assumes "subscriptionId ev = ''default.battery-low''" and "source ev = ''device.battery''"
    and "map_of (data ev) ''level'' = Some l" and "is_finite l"
    and "\<not> is_debug ev" and "\<not> in_cooldown (rules st) ev"
  shows "RulesEngine_evaluate h (rules st) ev (updateFromEvent (ctx st) ev)
           = \<lparr> action = Drop, reason = ''battery-low: level unchanged since last push'' \<rparr>
         \<and> processEvent h cfg stamp now_log now_push st ev
           = \<lparr> ctx = updateFromEvent (ctx st) ev, rules = rules st,
               appended = appended st @
                 [\<lparr> event = ev, decision = DecDrop,
                    entry_reason = ''battery-low: level unchanged since last push'',
                    timestamp = js_div_pos now_log 1000 \<rparr>] \<rparr>"
proof -
  have unchanged: "level_unchanged ev (updateFromEvent (ctx st) ev)"
    using assms(2,3,4) by (rule finite_level_unchanged)
  have rule5: "RulesEngine_evaluate h (rules st) ev (updateFromEvent (ctx st) ev)
           = \<lparr> action = Drop, reason = ''battery-low: level unchanged since last push'' \<rparr>"
    using assms(1,2,5,6) unchanged by (simp add: RulesEngine_evaluate_def)
  then have "decide h cfg stamp (rules st) ev (updateFromEvent (ctx st) ev)
           = \<lparr> action = Drop, reason = ''battery-low: level unchanged since last push'' \<rparr>"
    by (simp add: decide_def)
  then have "processEvent h cfg stamp now_log now_push st ev
           = \<lparr> ctx = updateFromEvent (ctx st) ev, rules = rules st,
               appended = appended st @
                 [\<lparr> event = ev, decision = DecDrop,
                    entry_reason = ''battery-low: level unchanged since last push'',
                    timestamp = js_div_pos now_log 1000 \<rparr>] \<rparr>"
    by (simp add: processEvent_def Let_def)
  with rule5 show ?thesis by simp
qed

text \<open>The test event "allows after cooldown expires" (level 0.12, 3700 s after the recorded
  push), sent through the pipeline instead of being evaluated on the empty context.\<close>

theorem battery_low_dropped_by_pipeline_witness:
  "subscriptionId (battery_event ''default.battery-low'' [(''level'', Fin 0.12)] 1740003700)
     = ''default.battery-low''
   \<and> source (battery_event ''default.battery-low'' [(''level'', Fin 0.12)] 1740003700)
     = ''device.battery''
   \<and> map_of (data (battery_event ''default.battery-low'' [(''level'', Fin 0.12)] 1740003700))
        ''level'' = Some (Fin 0.12)
   \<and> is_finite (Fin 0.12)
   \<and> \<not> is_debug (battery_event ''default.battery-low'' [(''level'', Fin 0.12)] 1740003700)
   \<and> \<not> in_cooldown rules_fired
        (battery_event ''default.battery-low'' [(''level'', Fin 0.12)] 1740003700)
   \<and> RulesEngine_evaluate quiet_host rules_fired
        (battery_event ''default.battery-low'' [(''level'', Fin 0.12)] 1740003700)
        (updateFromEvent empty_context
           (battery_event ''default.battery-low'' [(''level'', Fin 0.12)] 1740003700))
      = \<lparr> action = Drop, reason = ''battery-low: level unchanged since last push'' \<rparr>"
proof -
  let ?ev = "battery_event ''default.battery-low'' [(''level'', Fin 0.12)] 1740003700"
  let ?st = "\<lparr> ctx = empty_context, rules = rules_fired, appended = [] \<rparr>"
  have sid: "subscriptionId ?ev = ''default.battery-low''"
    and src: "source ?ev = ''device.battery''"
    and lvl: "map_of (data ?ev) ''level'' = Some (Fin 0.12)"
    by (simp_all add: battery_event_def)
  have fin: "is_finite (Fin 0.12)"
    by (simp add: is_finite_def)
  have nodebug: "\<not> is_debug ?ev"
    by (simp add: is_debug_def battery_event_def)
  have free: "\<not> in_cooldown (rules ?st) ?ev"
    by (simp add: in_cooldown_def battery_event_def rules_fired_entry cooldown_battery_low
        js_sub_def)
  from battery_low_dropped_by_pipeline[OF sid src lvl fin nodebug free, of quiet_host]
  have "RulesEngine_evaluate quiet_host rules_fired ?ev (updateFromEvent empty_context ?ev)
      = \<lparr> action = Drop, reason = ''battery-low: level unchanged since last push'' \<rparr>"
    by simp
  with sid src lvl fin nodebug free show ?thesis by simp
qed

text \<open>
  C6 as stated admits every level that is not \<open>NaN\<close>. For the level \<open>Infinity\<close>, which
  \<open>JSON.parse\<close> returns for a literal such as \<open>1e999\<close>, the difference of the level with itself
  is \<open>NaN\<close>, the comparison with 0.02 is false, and the event is pushed.
\<close>

theorem battery_low_infinite_level_counterexample:
  "subscriptionId (battery_event ''default.battery-low'' [(''level'', PInf)] 1740003700)
     = ''default.battery-low''
   \<and> source (battery_event ''default.battery-low'' [(''level'', PInf)] 1740003700)
     = ''device.battery''
   \<and> map_of (data (battery_event ''default.battery-low'' [(''level'', PInf)] 1740003700))
        ''level'' = Some PInf
   \<and> PInf \<noteq> NaN
   \<and> \<not> is_debug (battery_event ''default.battery-low'' [(''level'', PInf)] 1740003700)
   \<and> \<not> in_cooldown rules_fired
        (battery_event ''default.battery-low'' [(''level'', PInf)] 1740003700)
   \<and> RulesEngine_evaluate quiet_host rules_fired
        (battery_event ''default.battery-low'' [(''level'', PInf)] 1740003700)
        (updateFromEvent empty_context
           (battery_event ''default.battery-low'' [(''level'', PInf)] 1740003700))
      = \<lparr> action = Push, reason = ''battery low '' @ emdash @ '' level changed'' \<rparr>"
  by (simp add: battery_event_def is_debug_def in_cooldown_def rules_fired_entry
      cooldown_battery_low js_sub_def RulesEngine_evaluate_def level_unchanged_def
      updateFromEvent_def update_battery_def nullish_def Let_def empty_context_def)

subsection \<open>Merging an event into the context\<close>

lemma health_source_other:
  "startsWith s ''health'' \<Longrightarrow> s \<noteq> ''device.battery'' \<and> s \<noteq> ''geofence.triggered''"
  by (auto simp: startsWith_def)

text \<open>
  C4, as amended. \<open>updateFromEvent\<close> merges field by field the battery \<open>level\<close>, the location's
  \<open>latitude\<close> and \<open>longitude\<close> and the seven health metrics: a metric that the event's data
  does not carry keeps the value stored before, and one that it carries is overwritten.
  The battery \<open>state\<close> and the location's \<open>horizontalAccuracy\<close> are always kept.
\<close>

theorem updateFromEvent_field_merge:
  "(source ev = ''device.battery'' \<and> battery (device c) = Some b \<longrightarrow>
      (map_of (data ev) ''level'' = None \<longrightarrow>
         map_option level (battery (device (updateFromEvent c ev))) = Some (level b))
    \<and> (\<forall>v. map_of (data ev) ''level'' = Some v \<longrightarrow>
         map_option level (battery (device (updateFromEvent c ev))) = Some v)
    \<and> map_option state (battery (device (updateFromEvent c ev))) = Some (state b))
   \<and> (source ev = ''geofence.triggered'' \<and> location (device c) = Some l \<longrightarrow>
      (map_of (data ev) ''latitude'' = None \<longrightarrow>
         map_option latitude (location (device (updateFromEvent c ev))) = Some (latitude l))
    \<and> (\<forall>v. map_of (data ev) ''latitude'' = Some v \<longrightarrow>
         map_option latitude (location (device (updateFromEvent c ev))) = Some v)
    \<and> (map_of (data ev) ''longitude'' = None \<longrightarrow>
         map_option longitude (location (device (updateFromEvent c ev))) = Some (longitude l))
    \<and> (\<forall>v. map_of (data ev) ''longitude'' = Some v \<longrightarrow>
         map_option longitude (location (device (updateFromEvent c ev))) = Some v)
    \<and> map_option horizontalAccuracy (location (device (updateFromEvent c ev)))
        = Some (horizontalAccuracy l))
   \<and> (startsWith (source ev) ''health'' \<and> health (device c) = Some x \<longrightarrow>
      (\<forall>(k, metric) \<in> set health_metrics.
         (map_of (data ev) k = None \<longrightarrow>
            map_option metric (health (device (updateFromEvent c ev))) = Some (metric x))
       \<and> (\<forall>v. map_of (data ev) k = Some v \<longrightarrow>
            map_option metric (health (device (updateFromEvent c ev))) = Some (Some v))))"
  apply (intro conjI impI allI)
          apply (simp_all add: updateFromEvent_def update_battery_def update_location_def
      nullish_def Let_def)
  apply (auto simp: health_source_other update_health_def health_metrics_def nullish_opt_def
      prior_health_def)
  done

lemma context_home_device:
  "battery (device context_home)
     = Some \<lparr> level = Fin 0.5, state = ''charging'', isLowPowerMode = True,
              updatedAt = Fin 1740000000 \<rparr>"
  "location (device context_home)
     = Some \<lparr> latitude = Fin 48.1351, longitude = Fin 11.582, horizontalAccuracy = Fin 0,
              label = Some ''Home'', loc_updatedAt = Fin 1740000000 \<rparr>"
  "health (device context_home)
     = Some \<lparr> stepsToday = Some (Fin 8000), distanceMeters = None, heartRateAvg = Some (Fin 72),
              restingHeartRate = None, hrv = None, activeEnergyKcal = None,
              sleepDurationSeconds = None, health_updatedAt = Fin 1740000000 \<rparr>"
  by (simp_all add: context_home_def context_health_def context_low_power_def enter_home_def
      geofence_event_def updateFromEvent_def update_health_def update_location_def
      update_activity_def is_enter_def zoneName_def js_seq_def nullish_def nullish_opt_def
      prior_health_def startsWith_def empty_context_def Let_def)

text \<open>On a context with a battery, a location and a health record: a battery event that
  carries a level and one that does not, a geofence event that carries a longitude but no
  latitude, and a health event that carries \<open>heartRateAvg\<close> but not \<open>stepsToday\<close>.\<close>

theorem updateFromEvent_field_merge_witness:
  "map_option level (battery (device (updateFromEvent context_home
      (battery_event ''default.battery-low'' [(''level'', Fin 0.4)] 1740000100)))) = Some (Fin 0.4)
   \<and> map_option level (battery (device (updateFromEvent context_home
      (battery_event ''default.battery-low'' [] 1740000100)))) = Some (Fin 0.5)
   \<and> map_option latitude (location (device (updateFromEvent context_home
      \<lparr> subscriptionId = ''default.geofence'', source = ''geofence.triggered'',
        data = [(''type'', Fin 0), (''longitude'', Fin 12)], metadata = None,
        firedAt = Fin 1740000100 \<rparr>))) = Some (Fin 48.1351)
   \<and> map_option longitude (location (device (updateFromEvent context_home
      \<lparr> subscriptionId = ''default.geofence'', source = ''geofence.triggered'',
        data = [(''type'', Fin 0), (''longitude'', Fin 12)], metadata = None,
        firedAt = Fin 1740000100 \<rparr>))) = Some (Fin 12)
   \<and> map_option stepsToday (health (device (updateFromEvent context_home
      \<lparr> subscriptionId = ''default.daily-health'', source = ''health.summary'',
        data = [(''heartRateAvg'', Fin 75)], metadata = None, firedAt = Fin 1740000100 \<rparr>)))
      = Some (Some (Fin 8000))
   \<and> map_option heartRateAvg (health (device (updateFromEvent context_home
      \<lparr> subscriptionId = ''default.daily-health'', source = ''health.summary'',
        data = [(''heartRateAvg'', Fin 75)], metadata = None, firedAt = Fin 1740000100 \<rparr>)))
      = Some (Some (Fin 75))"
proof -
  let ?b1 = "battery_event ''default.battery-low'' [(''level'', Fin 0.4)] 1740000100"
  let ?b2 = "battery_event ''default.battery-low'' [] 1740000100"
  let ?g = "\<lparr> subscriptionId = ''default.geofence'', source = ''geofence.triggered'',
        data = [(''type'', Fin 0), (''longitude'', Fin 12)], metadata = None,
        firedAt = Fin 1740000100 \<rparr>"
  let ?h = "\<lparr> subscriptionId = ''default.daily-health'', source = ''health.summary'',
        data = [(''heartRateAvg'', Fin 75)], metadata = None, firedAt = Fin 1740000100 \<rparr>"
  have b1: "source ?b1 = ''device.battery''" "map_of (data ?b1) ''level'' = Some (Fin 0.4)"
    and b2: "source ?b2 = ''device.battery''" "map_of (data ?b2) ''level'' = None"
    by (simp_all add: battery_event_def)
  have g: "source ?g = ''geofence.triggered''" "map_of (data ?g) ''latitude'' = None"
      "map_of (data ?g) ''longitude'' = Some (Fin 12)"
    by simp_all
  have h: "startsWith (source ?h) ''health''" "map_of (data ?h) ''stepsToday'' = None"
      "map_of (data ?h) ''heartRateAvg'' = Some (Fin 75)"
    by (simp_all add: startsWith_def)
  let ?bat = "\<lparr> level = Fin 0.5, state = ''charging'', isLowPowerMode = True,
              updatedAt = Fin 1740000000 \<rparr>"
  let ?loc = "\<lparr> latitude = Fin 48.1351, longitude = Fin 11.582, horizontalAccuracy = Fin 0,
              label = Some ''Home'', loc_updatedAt = Fin 1740000000 \<rparr>"
  let ?hea = "\<lparr> stepsToday = Some (Fin 8000), distanceMeters = None,
              heartRateAvg = Some (Fin 72), restingHeartRate = None, hrv = None,
              activeEnergyKcal = None, sleepDurationSeconds = None,
              health_updatedAt = Fin 1740000000 \<rparr>"
  from updateFromEvent_field_merge[where ev = ?b1 and c = context_home and b = ?bat]
    b1 context_home_device(1)
  have 1: "map_option level (battery (device (updateFromEvent context_home ?b1))) = Some (Fin 0.4)"
    by simp
  from updateFromEvent_field_merge[where ev = ?b2 and c = context_home and b = ?bat]
    b2 context_home_device(1)
  have 2: "map_option level (battery (device (updateFromEvent context_home ?b2))) = Some (Fin 0.5)"
    by simp
  from updateFromEvent_field_merge[where ev = ?g and c = context_home and l = ?loc]
    g context_home_device(2)
  have 3: "map_option latitude (location (device (updateFromEvent context_home ?g)))
             = Some (Fin 48.1351)"
    and 4: "map_option longitude (location (device (updateFromEvent context_home ?g)))
             = Some (Fin 12)"
    by simp_all
  from updateFromEvent_field_merge[where ev = ?h and c = context_home and x = ?hea]
    h context_home_device(3)
  have 5: "map_option stepsToday (health (device (updateFromEvent context_home ?h)))
             = Some (Some (Fin 8000))"
    and 6: "map_option heartRateAvg (health (device (updateFromEvent context_home ?h)))
             = Some (Some (Fin 75))"
    by (simp_all add: health_metrics_def)
  from 1 2 3 4 5 6 show ?thesis by simp
qed

text \<open>
  C4 as stated fails for the fields that \<open>updateFromEvent\<close> does not merge. A battery event
  that carries neither \<open>isLowPowerMode\<close> nor \<open>updatedAt\<close> clears the stored low-power flag and
  replaces the stored time by the event's \<open>firedAt\<close>.
\<close>

theorem updateFromEvent_field_merge_counterexample:
  "map_of (data (battery_event ''default.battery-low'' [(''level'', Fin 0.4)] 1740000100))
      ''isLowPowerMode'' = None
   \<and> map_of (data (battery_event ''default.battery-low'' [(''level'', Fin 0.4)] 1740000100))
      ''updatedAt'' = None
   \<and> map_option isLowPowerMode (battery (device context_low_power)) = Some True
   \<and> map_option updatedAt (battery (device context_low_power)) = Some (Fin 1740000000)
   \<and> map_option isLowPowerMode (battery (device (updateFromEvent context_low_power
        (battery_event ''default.battery-low'' [(''level'', Fin 0.4)] 1740000100)))) = Some False
   \<and> map_option updatedAt (battery (device (updateFromEvent context_low_power
        (battery_event ''default.battery-low'' [(''level'', Fin 0.4)] 1740000100))))
      = Some (Fin 1740000100)"
  by (simp add: battery_event_def context_low_power_def updateFromEvent_def update_battery_def
      nullish_def js_seq_def Let_def empty_context_def)

subsection \<open>The current zone\<close>

lemma apply_events_snoc: "apply_events c (evs @ [e]) = updateFromEvent (apply_events c evs) e"
  by (simp add: apply_events_def)

lemma currentZone_step:
  "currentZone (activity (updateFromEvent c e)) =
     (if source e = ''geofence.triggered'' then (if is_enter e then zoneName e else None)
      else currentZone (activity c))"
  by (simp add: updateFromEvent_def update_activity_def Let_def)

lemma last_geofence_snoc:
  "last_geofence (evs @ [e])
     = (if source e = ''geofence.triggered'' then Some e else last_geofence evs)"
  by (simp add: last_geofence_def)

lemma currentZone_apply_events:
  "currentZone (activity (apply_events c evs)) =
     (case last_geofence evs of
        None \<Rightarrow> currentZone (activity c)
      | Some e \<Rightarrow> if is_enter e then zoneName e else None)"
proof (induction evs rule: rev_induct)
  case Nil
  show ?case by (simp add: apply_events_def last_geofence_def)
next
  case (snoc e evs)
  show ?case
    by (simp add: apply_events_snoc currentZone_step last_geofence_snoc snoc.IH)
qed

text \<open>
  C5, as amended. After any sequence of events applied to the empty context,
  \<open>activity.currentZone\<close> is non-null if and only if the most recent \<open>geofence.triggered\<close>
  event was an enter transition (\<open>data.type == 1\<close>) that carried a \<open>metadata.zoneName\<close>. An
  enter event sets \<open>currentZone\<close> to its zone name (null without one), \<open>isStationary\<close> to
  true and \<open>stationarySince\<close> to \<open>firedAt\<close>; any other geofence event is an exit and sets
  \<open>currentZone\<close> to null, \<open>isStationary\<close> to false and \<open>stationarySince\<close> to null.
\<close>

theorem currentZone_last_transition:
  "(currentZone (activity (apply_events empty_context evs)) \<noteq> None
      \<longleftrightarrow> (\<exists>e. last_geofence evs = Some e \<and> is_enter e \<and> zoneName e \<noteq> None))
   \<and> (source ev = ''geofence.triggered'' \<and> is_enter ev \<longrightarrow>
        currentZone (activity (updateFromEvent c ev)) = zoneName ev
      \<and> isStationary (activity (updateFromEvent c ev))
      \<and> stationarySince (activity (updateFromEvent c ev)) = Some (firedAt ev))
   \<and> (source ev = ''geofence.triggered'' \<and> \<not> is_enter ev \<longrightarrow>
        currentZone (activity (updateFromEvent c ev)) = None
      \<and> \<not> isStationary (activity (updateFromEvent c ev))
      \<and> stationarySince (activity (updateFromEvent c ev)) = None)"
proof -
  have "currentZone (activity (apply_events empty_context evs)) \<noteq> None
      \<longleftrightarrow> (\<exists>e. last_geofence evs = Some e \<and> is_enter e \<and> zoneName e \<noteq> None)"
    by (simp add: currentZone_apply_events empty_context_def split: option.splits)
  then show ?thesis
    by (simp add: updateFromEvent_def update_activity_def Let_def)
qed

lemma geofence_examples:
  "source enter_home = ''geofence.triggered''" "is_enter enter_home"
  "zoneName enter_home = Some ''Home''" "firedAt enter_home = Fin 1740000000"
  "source exit_home = ''geofence.triggered''" "\<not> is_enter exit_home"
  "source enter_unnamed = ''geofence.triggered''" "is_enter enter_unnamed"
  "zoneName enter_unnamed = None"
  by (simp_all add: enter_home_def exit_home_def enter_unnamed_def geofence_event_def
      is_enter_def zoneName_def js_seq_def)

text \<open>The test "clears zone name on geofence exit": entering "Home", then leaving it.\<close>

theorem currentZone_last_transition_witness:
  "last_geofence [enter_home] = Some enter_home
   \<and> is_enter enter_home \<and> zoneName enter_home \<noteq> None
   \<and> currentZone (activity (apply_events empty_context [enter_home])) \<noteq> None
   \<and> source enter_home = ''geofence.triggered''
   \<and> currentZone (activity (updateFromEvent empty_context enter_home)) = Some ''Home''
   \<and> isStationary (activity (updateFromEvent empty_context enter_home))
   \<and> stationarySince (activity (updateFromEvent empty_context enter_home)) = Some (Fin 1740000000)
   \<and> source exit_home = ''geofence.triggered'' \<and> \<not> is_enter exit_home
   \<and> currentZone (activity (updateFromEvent (updateFromEvent empty_context enter_home) exit_home))
      = None
   \<and> \<not> isStationary (activity (updateFromEvent (updateFromEvent empty_context enter_home)
        exit_home))
   \<and> stationarySince (activity (updateFromEvent (updateFromEvent empty_context enter_home)
        exit_home)) = None"
proof -
  have last: "last_geofence [enter_home] = Some enter_home"
    by (simp add: last_geofence_def geofence_examples)
  from currentZone_last_transition[of "[enter_home]" enter_home empty_context] last
    geofence_examples(1-4)
  have entered: "currentZone (activity (apply_events empty_context [enter_home])) \<noteq> None
      \<and> currentZone (activity (updateFromEvent empty_context enter_home)) = Some ''Home''
      \<and> isStationary (activity (updateFromEvent empty_context enter_home))
      \<and> stationarySince (activity (updateFromEvent empty_context enter_home))
         = Some (Fin 1740000000)"
    by simp
  from currentZone_last_transition[of "[]" exit_home "updateFromEvent empty_context enter_home"]
    geofence_examples(5,6)
  have left: "currentZone (activity (updateFromEvent (updateFromEvent empty_context enter_home)
          exit_home)) = None
      \<and> \<not> isStationary (activity (updateFromEvent (updateFromEvent empty_context enter_home)
          exit_home))
      \<and> stationarySince (activity (updateFromEvent (updateFromEvent empty_context enter_home)
          exit_home)) = None"
    by simp
  from last entered left geofence_examples show ?thesis by simp
qed

text \<open>
  C5 as stated fails for an enter event without a zone name, such as the event of the test
  "updates activity from geofence enter": the most recent geofence event is an enter
  transition, and \<open>currentZone\<close> is null.
\<close>

theorem currentZone_last_transition_counterexample:
  "last_geofence [enter_unnamed] = Some enter_unnamed
   \<and> is_enter enter_unnamed
   \<and> currentZone (activity (apply_events empty_context [enter_unnamed])) = None"
  by (simp add: last_geofence_def geofence_examples apply_events_def currentZone_step)

subsection \<open>Log rotation\<close>





subsection \<open>Pattern engine\<close>

text \<open>
  C10. The document that \<open>compute\<close> writes has the \<open>triggerCooldowns\<close> of the patterns
  document it read: those of the prior document, or the empty mapping when there is none.
  When \<open>compute\<close> resolves, the patterns file holds the document it returns, in which
  \<open>computedAt\<close> is the time of the run and the four other fields are what the analytic
  passes find in the entries of the window.
\<close>

theorem compute_keeps_triggerCooldowns:
  "triggerCooldowns (computed_patterns an w run (fs\<lparr> patterns_file := Some prior \<rparr>))
     = triggerCooldowns prior
   \<and> triggerCooldowns (computed_patterns an w run (fs\<lparr> patterns_file := None \<rparr>)) = Map.empty
   \<and> (\<forall>fs' p. PatternEngine_compute an w run fs = Some (fs', p) \<longrightarrow>
         patterns_file fs' = Some p
       \<and> triggerCooldowns p = triggerCooldowns (nullish (patterns_file fs) emptyPatterns)
       \<and> computedAt p = js_div_pos (now_computed run) 1000
       \<and> locationRoutines p
           = computeLocationRoutines an (readSince (events_file fs)
               (js_sub (js_div_pos (now_start run) 1000) (js_mul_pos w 86400)))
       \<and> healthTrends p
           = computeHealthTrends an (readSince (events_file fs)
               (js_sub (js_div_pos (now_start run) 1000) (js_mul_pos w 86400)))
       \<and> batteryPatterns p
           = computeBatteryPatterns an (readSince (events_file fs)
               (js_sub (js_div_pos (now_start run) 1000) (js_mul_pos w 86400)))
       \<and> eventStats p
           = computeEventStats an (readSince (events_file fs)
               (js_sub (js_div_pos (now_start run) 1000) (js_mul_pos w 86400))))"
  by (auto simp: computed_patterns_def PatternEngine_compute_def nullish_def emptyPatterns_def
      Let_def split: option.splits if_splits)

text \<open>A \<open>compute\<close> over an empty log, with a prior document that holds the cooldown of
  \<open>sleep-deficit\<close>.\<close>

theorem compute_keeps_triggerCooldowns_witness:
  "(\<exists>fs' p. PatternEngine_compute no_analysis (Fin 14) good_run
               \<lparr> events_file = Some [], patterns_file = Some patterns_cooled \<rparr> = Some (fs', p)
           \<and> patterns_file fs' = Some p
           \<and> computedAt p = Fin 1740000000
           \<and> triggerCooldowns p = [''sleep-deficit'' \<mapsto> Fin 1739990000])"
proof -
  let ?fs = "\<lparr> events_file = Some [], patterns_file = Some patterns_cooled \<rparr>"
  obtain fs' p where run: "PatternEngine_compute no_analysis (Fin 14) good_run ?fs = Some (fs', p)"
    by (simp add: PatternEngine_compute_def good_run_def EventLog_rotate_def readAll_def MAX_LINES_def
        Let_def)
  then have at: "computedAt p = Fin 1740000000"
    by (auto simp: PatternEngine_compute_def computed_patterns_def good_run_def EventLog_rotate_def
        readAll_def MAX_LINES_def Let_def)
  from compute_keeps_triggerCooldowns[where an = no_analysis and w = "Fin 14" and run = good_run
      and fs = ?fs] run
  have "patterns_file fs' = Some p
      \<and> triggerCooldowns p = triggerCooldowns (nullish (patterns_file ?fs) emptyPatterns)"
    by simp
  then have "patterns_file fs' = Some p
      \<and> triggerCooldowns p = [''sleep-deficit'' \<mapsto> Fin 1739990000]"
    by (simp add: nullish_def patterns_cooled_def)
  with run at show ?thesis by blast
qed

subsection \<open>Proactive engine\<close>












subsection \<open>Judgment layer\<close>

lemma fail_open_result:
  "push (fail_open what) \<and> str_includes (judgment_reason (fail_open what)) ''fail open''"
proof -
  have "str_includes ((what @ '' '' @ emdash @ '' '') @ ''fail open'' @ []) ''fail open''"
    by (rule str_includes_append)
  then show ?thesis by (simp add: fail_open_def)
qed

text \<open>A reply that parses is followed, so the judgment can drop an event: the fail-open
  theorem below is not the statement that it always pushes.\<close>

lemma judgment_follows_reply:
  "JudgmentLayer_evaluate
     (utc_host parse_drop_reply
        (Returns (Some [PObject None (Some [OtherItem,
           TextItem (''{'' @ dquote @ ''push'' @ dquote @ '':false,'' @ dquote @ ''reason''
                     @ dquote @ '':'' @ dquote @ ''routine'' @ dquote @ ''}'')])])))
     default_config example_stamp (custom_event [(''value'', Fin 42)] 1740000000) empty_context
   = \<lparr> push = False, judgment_reason = ''routine'' \<rparr>"
  by (simp add: JudgmentLayer_evaluate_def utc_host_def default_config_def provider_of_def
      model_of_def nullish_def parse_drop_reply_def read_reply_def Let_def)

text \<open>
  C2. Whenever the configured \<open>llmModel\<close> has an empty provider or an empty model part, or
  the invocation of the model throws, or the text extracted from its reply is empty, or
  that text does not parse as JSON, \<open>JudgmentLayer.evaluate\<close> answers \<open>push: true\<close> with a
  reason that contains "fail open". Here \<open>reply\<close> is what the invocation does for the prompt
  of this event and context.
\<close>

theorem judgment_fails_open:
  assumes reply: "reply = runEmbeddedPiAgent h
                    (buildPrompt h stamp ev c (pushesToday (meta c)) (pushBudgetPerDay cfg))
                    (provider_of (llmModel cfg)) (model_of (llmModel cfg))"
    and failure: "provider_of (llmModel cfg) = [] \<or> model_of (llmModel cfg) = []
        \<or> reply = Throws
        \<or> (\<exists>ps. reply = Returns ps \<and> extractText (nullish ps []) = [])
        \<or> (\<exists>ps. reply = Returns ps
               \<and> JSON_parse h (stripFences h (extractText (nullish ps []))) = None)"
  shows "push (JudgmentLayer_evaluate h cfg stamp ev c)
       \<and> str_includes (judgment_reason (JudgmentLayer_evaluate h cfg stamp ev c)) ''fail open''"
proof -
  have "\<exists>what. JudgmentLayer_evaluate h cfg stamp ev c = fail_open what"
    using failure unfolding reply
    by (auto simp: JudgmentLayer_evaluate_def Let_def split: invocation.splits option.splits)
  then show ?thesis using fail_open_result by auto
qed

lemma utc_host_reply: "runEmbeddedPiAgent (utc_host parse r) prompt provider model = r"
  by (simp add: utc_host_def)

text \<open>One input for each failure: a model name without a provider part, an invocation
  that throws, a reply without text, and a reply that is not JSON.\<close>

theorem judgment_fails_open_witness:
  "model_of (llmModel bare_model_config) = []
   \<and> push (JudgmentLayer_evaluate quiet_host bare_model_config example_stamp
        (custom_event [(''value'', Fin 42)] 1740000000) empty_context)
   \<and> str_includes (judgment_reason (JudgmentLayer_evaluate quiet_host bare_model_config
        example_stamp (custom_event [(''value'', Fin 42)] 1740000000) empty_context)) ''fail open''
   \<and> push (JudgmentLayer_evaluate quiet_host default_config example_stamp
        (custom_event [(''value'', Fin 42)] 1740000000) empty_context)
   \<and> str_includes (judgment_reason (JudgmentLayer_evaluate quiet_host default_config
        example_stamp (custom_event [(''value'', Fin 42)] 1740000000) empty_context)) ''fail open''
   \<and> extractText (nullish (Some [POther, PObject None (Some [OtherItem])]) []) = []
   \<and> push (JudgmentLayer_evaluate
        (utc_host parse_drop_reply (Returns (Some [POther, PObject None (Some [OtherItem])])))
        default_config example_stamp (custom_event [(''value'', Fin 42)] 1740000000)
        empty_context)
   \<and> str_includes (judgment_reason (JudgmentLayer_evaluate
        (utc_host parse_drop_reply (Returns (Some [POther, PObject None (Some [OtherItem])])))
        default_config example_stamp (custom_event [(''value'', Fin 42)] 1740000000)
        empty_context)) ''fail open''
   \<and> parse_drop_reply (extractText (nullish (Some [PString ''maybe later'']) [])) = None
   \<and> push (JudgmentLayer_evaluate
        (utc_host parse_drop_reply (Returns (Some [PString ''maybe later''])))
        default_config example_stamp (custom_event [(''value'', Fin 42)] 1740000000)
        empty_context)
   \<and> str_includes (judgment_reason (JudgmentLayer_evaluate
        (utc_host parse_drop_reply (Returns (Some [PString ''maybe later''])))
        default_config example_stamp (custom_event [(''value'', Fin 42)] 1740000000)
        empty_context)) ''fail open''"
proof -
  let ?ev = "custom_event [(''value'', Fin 42)] 1740000000"
  let ?silent = "utc_host parse_drop_reply (Returns (Some [POther, PObject None (Some [OtherItem])]))"
  let ?vague = "utc_host parse_drop_reply (Returns (Some [PString ''maybe later'']))"
  have bare: "model_of (llmModel bare_model_config) = []"
    by (simp add: bare_model_config_def default_config_def model_of_def)
  have throws: "runEmbeddedPiAgent quiet_host p a b = Throws" for p a b
    by (simp add: quiet_host_def utc_host_reply)
  have empty: "extractText (nullish (Some [POther, PObject None (Some [OtherItem])]) []) = []"
    by (simp add: nullish_def)
  have unparsed: "parse_drop_reply (extractText (nullish (Some [PString ''maybe later'']) [])) = None"
    by (simp add: nullish_def parse_drop_reply_def dquote_def)
  have unparsed': "JSON_parse ?vague (stripFences ?vague
      (extractText (nullish (Some [PString ''maybe later'']) []))) = None"
    using unparsed by (simp add: utc_host_def)
  note 1 = judgment_fails_open[OF refl, of bare_model_config quiet_host example_stamp ?ev
      empty_context]
  note 2 = judgment_fails_open[OF refl, of default_config quiet_host example_stamp ?ev
      empty_context]
  note 3 = judgment_fails_open[OF refl, of default_config ?silent example_stamp ?ev
      empty_context]
  note 4 = judgment_fails_open[OF refl, of default_config ?vague example_stamp ?ev
      empty_context]
  from 1 bare 2 throws 3 empty 4 unparsed' unparsed show ?thesis
    by (simp add: utc_host_reply)
qed

subsection \<open>The prompt of the judgment layer\<close>

lemma str_includes_trans:
  assumes "str_includes a b" and "str_includes b c"
  shows "str_includes a c"
proof -
  from assms obtain p q p' q' where "a = p @ b @ q" and "b = p' @ c @ q'"
    by (auto simp: str_includes_sublist sublist_def)
  then have "a = (p @ p') @ c @ (q' @ q)" by simp
  then show ?thesis by (simp only: str_includes_append)
qed

lemma join_with_append:
  "xs \<noteq> [] \<Longrightarrow> ys \<noteq> [] \<Longrightarrow> join_with s (xs @ ys) = join_with s xs @ s @ join_with s ys"
proof (induction xs rule: induct_list012)
  case 1
  then show ?case by simp
next
  case (2 x)
  then show ?case by (cases ys) simp_all
next
  case (3 x y zs)
  then show ?case by simp
qed

lemma prompt_instructions_nonempty: "prompt_instructions \<noteq> []"
  by (simp add: prompt_instructions_def)

lemma prompt_includes_context:
  "str_includes (buildPrompt h stamp ev c pushes budget) (stringify (toStr h) (sanitizedContext c))"
proof -
  have "buildPrompt h stamp ev c pushes budget
      = (join_with newline prompt_instructions @ newline @ ''Context: '')
        @ stringify (toStr h) (sanitizedContext c)
        @ (newline @ ''Event: '' @ stringify (toStr h) (event_json ev) @ newline
           @ ''Pushes today: '' @ toStr h pushes @ '' of ~'' @ toStr h budget @ '' budget''
           @ newline @ ''Time: '' @ stamp)"
    by (simp add: buildPrompt_def join_with_append prompt_instructions_nonempty)
  then show ?thesis by (simp only: str_includes_append)
qed

lemma prompt_includes_event:
  "str_includes (buildPrompt h stamp ev c pushes budget) (stringify (toStr h) (event_json ev))"
proof -
  have "buildPrompt h stamp ev c pushes budget
      = (join_with newline prompt_instructions @ newline @ ''Context: ''
         @ stringify (toStr h) (sanitizedContext c) @ newline @ ''Event: '')
        @ stringify (toStr h) (event_json ev)
        @ (newline
           @ ''Pushes today: '' @ toStr h pushes @ '' of ~'' @ toStr h budget @ '' budget''
           @ newline @ ''Time: '' @ stamp)"
    by (simp add: buildPrompt_def join_with_append prompt_instructions_nonempty)
  then show ?thesis by (simp only: str_includes_append)
qed

lemma props_include_value:
  "(k, v) \<in> set kvs \<Longrightarrow> \<exists>pre post. stringify_props f kvs = pre @ stringify f v @ post"
proof (induction kvs rule: induct_list012)
  case 1
  then show ?case by simp
next
  case (2 kv)
  then have "stringify_props f [kv] = (json_quote k @ '':'') @ stringify f v @ []" by auto
  then show ?case by blast
next
  case (3 kv kv' kvs)
  obtain k0 v0 where kv: "kv = (k0, v0)" by (cases kv)
  show ?case
  proof (cases "(k, v) = kv")
    case True
    with kv have "stringify_props f (kv # kv' # kvs)
        = (json_quote k @ '':'') @ stringify f v @ ('','' @ stringify_props f (kv' # kvs))"
      by auto
    then show ?thesis by blast
  next
    case False
    with 3 obtain pre post where "stringify_props f (kv' # kvs) = pre @ stringify f v @ post"
      by auto
    with kv have "stringify_props f (kv # kv' # kvs)
        = (json_quote k0 @ '':'' @ stringify f v0 @ '','' @ pre) @ stringify f v @ post"
      by simp
    then show ?thesis by blast
  qed
qed

lemma object_includes_value:
  assumes "(k, v) \<in> set kvs"
  shows "str_includes (stringify f (JObj kvs)) (stringify f v)"
proof -
  from props_include_value[OF assms, of f] obtain pre post
    where "stringify_props f kvs = pre @ stringify f v @ post" by blast
  then have "stringify f (JObj kvs) = (''{'' @ pre) @ stringify f v @ (post @ ''}'')" by simp
  then show ?thesis by (simp only: str_includes_append)
qed

lemma context_includes_label:
  assumes "location (device c) = Some l"
  shows "str_includes (stringify f (sanitizedContext c)) (json_quote (nullish (label l) ''Unknown''))"
proof -
  let ?loc = "sanitized_location_json l"
  let ?dev = "JObj [(''battery'',
                       (case battery (device c) of None \<Rightarrow> JNull | Some b \<Rightarrow> battery_json b)),
                    (''location'', ?loc),
                    (''health'',
                       (case health (device c) of None \<Rightarrow> JNull | Some x \<Rightarrow> health_json x))]"
  have top: "str_includes (stringify f (sanitizedContext c)) (stringify f ?dev)"
    unfolding sanitizedContext_def using assms
    by (intro object_includes_value[where k = "''device''"]) simp
  have dev: "str_includes (stringify f ?dev) (stringify f ?loc)"
    by (intro object_includes_value[where k = "''location''"]) simp
  have loc: "str_includes (stringify f ?loc) (stringify f (JStr (nullish (label l) ''Unknown'')))"
    unfolding sanitized_location_json_def
    by (intro object_includes_value[where k = "''label''"]) simp
  from str_includes_trans[OF str_includes_trans[OF top dev] loc] show ?thesis by simp
qed

lemma plain_quote:
  assumes "list_all (\<lambda>ch. escape_char ch = [ch]) s"
  shows "concat (map escape_char s) = s"
  using assms by (induction s) simp_all

lemma quoted_includes_plain:
  assumes "list_all (\<lambda>ch. escape_char ch = [ch]) s"
  shows "str_includes (json_quote s) s"
  unfolding json_quote_def plain_quote[OF assms] by (rule str_includes_append)

lemmas json_eval = stringify.simps json_quote_def escape_char_def dquote_def newline_def
  num_json_def str_json_def is_finite_def

lemmas prompt_eval = buildPrompt_def prompt_instructions_def sanitizedContext_def
  sanitized_location_json_def activity_json_def meta_json_def event_json_def
  empty_context_def custom_event_def geofence_event_def example_stamp_def quiet_host_def
  utc_host_def nullish_def json_eval print_eval

text \<open>The test "builds prompt with sanitized context (no raw coordinates)" of the
  repository, on the model.\<close>

lemma buildPrompt_test:
  "str_includes (buildPrompt quiet_host example_stamp (custom_event [(''value'', Fin 42)] 1740000000)
     context_located (Fin 3) (Fin 10)) ''Home''
   \<and> \<not> str_includes (buildPrompt quiet_host example_stamp
        (custom_event [(''value'', Fin 42)] 1740000000) context_located (Fin 3) (Fin 10))
        ''48.1351''
   \<and> \<not> str_includes (buildPrompt quiet_host example_stamp
        (custom_event [(''value'', Fin 42)] 1740000000) context_located (Fin 3) (Fin 10))
        ''11.582''
   \<and> str_includes (buildPrompt quiet_host example_stamp
        (custom_event [(''value'', Fin 42)] 1740000000) context_located (Fin 3) (Fin 10))
        ''Pushes today: 3 of ~10''"
  by (simp add: prompt_eval context_located_def)

text \<open>
  C7, as amended. Two contexts that differ only in the latitude, the longitude or the
  horizontal accuracy of their location give the same prompt, for the same event, counters
  and time. For a context with a location the prompt contains the label as
  \<open>JSON.stringify\<close> quotes it ("Unknown" for a null label), and so the label itself when
  none of its characters is escaped in JSON.
\<close>

theorem buildPrompt_hides_coordinates:
  "buildPrompt h stamp ev
       (c\<lparr> device := (device c)\<lparr> location :=
          Some (l\<lparr> latitude := lat, longitude := lon, horizontalAccuracy := acc \<rparr>) \<rparr> \<rparr>)
       pushes budget
     = buildPrompt h stamp ev (c\<lparr> device := (device c)\<lparr> location := Some l \<rparr> \<rparr>) pushes budget
   \<and> (location (device c) = Some l \<longrightarrow>
        str_includes (buildPrompt h stamp ev c pushes budget)
          (json_quote (nullish (label l) ''Unknown''))
      \<and> (list_all (\<lambda>ch. escape_char ch = [ch]) (nullish (label l) ''Unknown'') \<longrightarrow>
           str_includes (buildPrompt h stamp ev c pushes budget) (nullish (label l) ''Unknown'')))"
proof -
  have same: "sanitizedContext (c\<lparr> device := (device c)\<lparr> location :=
          Some (l\<lparr> latitude := lat, longitude := lon, horizontalAccuracy := acc \<rparr>) \<rparr> \<rparr>)
      = sanitizedContext (c\<lparr> device := (device c)\<lparr> location := Some l \<rparr> \<rparr>)"
    by (simp add: sanitizedContext_def sanitized_location_json_def)
  have quoted: "str_includes (buildPrompt h stamp ev c pushes budget)
          (json_quote (nullish (label l) ''Unknown''))" if "location (device c) = Some l"
    using str_includes_trans[OF prompt_includes_context context_includes_label[OF that]] .
  have plain: "str_includes (buildPrompt h stamp ev c pushes budget) (nullish (label l) ''Unknown'')"
    if "location (device c) = Some l"
      and "list_all (\<lambda>ch. escape_char ch = [ch]) (nullish (label l) ''Unknown'')"
    using str_includes_trans[OF quoted[OF that(1)] quoted_includes_plain[OF that(2)]] .
  from same quoted plain show ?thesis by (simp add: buildPrompt_def)
qed

text \<open>The context of the test, whose label "Home" has no character that JSON escapes.\<close>

theorem buildPrompt_hides_coordinates_witness:
  "location (device context_located)
     = Some \<lparr> latitude = Fin 48.1351, longitude = Fin 11.582, horizontalAccuracy = Fin 15,
              label = Some ''Home'', loc_updatedAt = Fin 1740000000 \<rparr>
   \<and> list_all (\<lambda>ch. escape_char ch = [ch]) ''Home''
   \<and> str_includes (buildPrompt quiet_host example_stamp
        (custom_event [(''value'', Fin 42)] 1740000000) context_located (Fin 3) (Fin 10))
        (json_quote ''Home'')
   \<and> str_includes (buildPrompt quiet_host example_stamp
        (custom_event [(''value'', Fin 42)] 1740000000) context_located (Fin 3) (Fin 10)) ''Home''"
proof -
  let ?l = "\<lparr> latitude = Fin 48.1351, longitude = Fin 11.582, horizontalAccuracy = Fin 15,
              label = Some ''Home'', loc_updatedAt = Fin 1740000000 \<rparr>"
  have loc: "location (device context_located) = Some ?l"
    by (simp add: context_located_def)
  have plain: "list_all (\<lambda>ch. escape_char ch = [ch]) ''Home''"
    by (simp add: escape_char_def)
  from buildPrompt_hides_coordinates[where c = context_located and l = ?l and h = quiet_host
      and stamp = example_stamp and ev = "custom_event [(''value'', Fin 42)] 1740000000"
      and pushes = "Fin 3" and budget = "Fin 10"] loc plain
  have "str_includes (buildPrompt quiet_host example_stamp
        (custom_event [(''value'', Fin 42)] 1740000000) context_located (Fin 3) (Fin 10))
        (json_quote ''Home'')
      \<and> str_includes (buildPrompt quiet_host example_stamp
        (custom_event [(''value'', Fin 42)] 1740000000) context_located (Fin 3) (Fin 10)) ''Home''"
    by (simp add: nullish_def)
  with loc plain show ?thesis by simp
qed

text \<open>
  C7 as stated fails in two ways. The prompt carries the raw event, so for a geofence event
  at the stored position it contains the digits of the latitude and of the longitude; and a
  label with a double quote appears only in its escaped form.
\<close>

theorem buildPrompt_hides_coordinates_counterexample:
  "map_option latitude (location (device context_located)) = Some (Fin 48.1351)
   \<and> map_option longitude (location (device context_located)) = Some (Fin 11.582)
   \<and> toStr quiet_host (Fin 48.1351) = ''48.1351''
   \<and> toStr quiet_host (Fin 11.582) = ''11.582''
   \<and> str_includes (buildPrompt quiet_host example_stamp enter_home context_located (Fin 3) (Fin 10))
        ''48.1351''
   \<and> str_includes (buildPrompt quiet_host example_stamp enter_home context_located (Fin 3) (Fin 10))
        ''11.582''
   \<and> map_option label (location (device context_quoted)) = Some (Some (dquote @ ''Home'' @ dquote))
   \<and> \<not> str_includes (buildPrompt quiet_host example_stamp
        (custom_event [(''value'', Fin 42)] 1740000000) context_quoted (Fin 3) (Fin 10))
        (dquote @ ''Home'' @ dquote)"
  by (simp add: prompt_eval context_located_def context_quoted_def enter_home_def)

end
